theory Spec2Isabelle
  imports Complex_Main
begin

section \<open>Python library functions used by the capture scripts\<close>

text \<open>
  The three scripts (capture_pi.py, capture_pi4.py, cap_pi6.py) are near copies of one
  another. A function is modelled once where the copies agree and once per script, with
  the suffix pi4 or pi6, where they differ. File names and paths are ASCII strings.

  cap_pi6.py is not a program that runs: it gives \<open>single_capture\<close> and
  \<open>timelapse_capture\<close> a parameter written \<open>args.rotate=None\<close> (lines 285 and 305) and
  passes a positional argument after keyword arguments (lines 398 and 400), and Python
  refuses the whole file for it before any statement is executed. The scripts that run
  are capture_pi.py and capture_pi4.py, and the model of the pipeline is the model of
  capture_pi4.py. Two pieces of the text of cap_pi6.py are read as the Python statements
  they are, each marked as such: \<open>timestamped_filename\<close> and lines 407 to 421 of
  \<open>main\<close>.
\<close>

abbreviation sq :: string where
  "sq \<equiv> [CHR 0x27]"

text \<open>Decimal digits and \<open>str(n)\<close> for a non-negative integer.\<close>

definition digit_char :: "nat \<Rightarrow> char" where
  "digit_char d =
     (if d = 0 then CHR ''0'' else if d = 1 then CHR ''1'' else if d = 2 then CHR ''2''
      else if d = 3 then CHR ''3'' else if d = 4 then CHR ''4'' else if d = 5 then CHR ''5''
      else if d = 6 then CHR ''6'' else if d = 7 then CHR ''7'' else if d = 8 then CHR ''8''
      else CHR ''9'')"

fun str_nat :: "nat \<Rightarrow> string" where
  "str_nat n = (if n < 10 then [digit_char n] else str_nat (n div 10) @ [digit_char (n mod 10)])"

declare str_nat.simps [simp del]

text \<open>\<open>str(i)\<close> for any integer, as in \<open>str(ssh_port)\<close>.\<close>

definition str_int :: "int \<Rightarrow> string" where
  "str_int i = (if i < 0 then CHR ''-'' # str_nat (nat (- i)) else str_nat (nat i))"

text \<open>
  The format \<open>{i:0wd}\<close> and the zero-padded fields of \<open>strftime\<close>, for a non-negative
  number: at least \<open>w\<close> digits, padded with zeros on the left.
\<close>

definition fmt_0d :: "nat \<Rightarrow> nat \<Rightarrow> string" where
  "fmt_0d w n = replicate (w - length (str_nat n)) CHR ''0'' @ str_nat n"

text \<open>\<open>os.path.join(a, b)\<close> of posixpath, for two components.\<close>

definition path_join :: "string \<Rightarrow> string \<Rightarrow> string" where
  "path_join a b =
     (if b \<noteq> [] \<and> hd b = CHR ''/'' then b
      else if a = [] \<or> last a = CHR ''/'' then a @ b
      else a @ ''/'' @ b)"

text \<open>\<open>os.path.basename(p)\<close>: what follows the last slash.\<close>

definition basename :: "string \<Rightarrow> string" where
  "basename p = rev (takeWhile (\<lambda>c. c \<noteq> CHR ''/'') (rev p))"

text \<open>\<open>s.rstrip(c)\<close> and \<open>s.lstrip(c)\<close> for a single character \<open>c\<close>.\<close>

definition rstrip :: "char \<Rightarrow> string \<Rightarrow> string" where
  "rstrip c s = rev (dropWhile (\<lambda>x. x = c) (rev s))"

definition lstrip :: "char \<Rightarrow> string \<Rightarrow> string" where
  "lstrip c s = dropWhile (\<lambda>x. x = c) s"

text \<open>\<open>s.lower()\<close> on ASCII: the letters A to Z move to a to z.\<close>

definition lower_char :: "char \<Rightarrow> char" where
  "lower_char c =
     (case map_of (zip ''ABCDEFGHIJKLMNOPQRSTUVWXYZ'' ''abcdefghijklmnopqrstuvwxyz'') c of
        None \<Rightarrow> c
      | Some l \<Rightarrow> l)"

definition lower :: "string \<Rightarrow> string" where
  "lower s = map lower_char s"

text \<open>
  \<open>os.path.splitext(p)[1]\<close>: the extension starts at the last dot of the last path
  component, unless only dots stand before it in that component; then it is empty.
\<close>

definition splitext_ext :: "string \<Rightarrow> string" where
  "splitext_ext p =
     (let tail = basename p;
          suffix = rev (takeWhile (\<lambda>c. c \<noteq> CHR ''.'') (rev tail));
          stem = take (length tail - length suffix - 1) tail
      in if CHR ''.'' \<notin> set tail then []
         else if list_all (\<lambda>c. c = CHR ''.'') stem then []
         else CHR ''.'' # suffix)"

text \<open>\<open>html.escape(s)\<close> with its default \<open>quote=True\<close>.\<close>

definition escape_char :: "char \<Rightarrow> string" where
  "escape_char c =
     (if c = CHR ''&'' then ''&amp;''
      else if c = CHR ''<'' then ''&lt;''
      else if c = CHR ''>'' then ''&gt;''
      else if c = CHR 0x22 then ''&quot;''
      else if c = CHR 0x27 then ''&#x27;''
      else [c])"

definition html_escape :: "string \<Rightarrow> string" where
  "html_escape s = concat (map escape_char s)"

text \<open>\<open>sep.join(lines)\<close>.\<close>

fun str_join :: "string \<Rightarrow> string list \<Rightarrow> string" where
  "str_join sep [] = []"
| "str_join sep [x] = x"
| "str_join sep (x # y # ys) = x @ sep @ str_join sep (y # ys)"

section \<open>The Naming Service\<close>

text \<open>
  A reading of \<open>datetime.now()\<close>, down to the second (the scripts of this section format
  nothing finer). The year is between 1000 and 9999 on a device whose clock is set, so
  \<open>%Y\<close> is four digits.
\<close>

record datetime =
  year :: nat
  month :: nat
  day :: nat
  hour :: nat
  minute :: nat
  second :: nat

definition valid_datetime :: "datetime \<Rightarrow> bool" where
  "valid_datetime d =
     (1000 \<le> year d \<and> year d \<le> 9999 \<and> 1 \<le> month d \<and> month d \<le> 12 \<and>
      1 \<le> day d \<and> day d \<le> 31 \<and> hour d < 24 \<and> minute d < 60 \<and> second d < 60)"

text \<open>\<open>strftime("%Y%m%d_%H%M%S")\<close>, the stamp of a file name.\<close>

definition strftime_compact :: "datetime \<Rightarrow> string" where
  "strftime_compact d =
     fmt_0d 4 (year d) @ fmt_0d 2 (month d) @ fmt_0d 2 (day d) @ ''_'' @
     fmt_0d 2 (hour d) @ fmt_0d 2 (minute d) @ fmt_0d 2 (second d)"

text \<open>\<open>strftime("%Y-%m-%d %H:%M:%S")\<close>, the text drawn on an image.\<close>

definition strftime_human :: "datetime \<Rightarrow> string" where
  "strftime_human d =
     fmt_0d 4 (year d) @ ''-'' @ fmt_0d 2 (month d) @ ''-'' @ fmt_0d 2 (day d) @ '' '' @
     fmt_0d 2 (hour d) @ '':'' @ fmt_0d 2 (minute d) @ '':'' @ fmt_0d 2 (second d)"

text \<open>
  capture_pi4.py, lines 61 to 63: the stamp loses its last three characters
  (\<open>[:-3]\<close>), that is the second digit of the minute and both digits of the second.
\<close>

definition timestamped_filename_pi4 :: "datetime \<Rightarrow> string \<Rightarrow> string \<Rightarrow> string \<Rightarrow> string" where
  "timestamped_filename_pi4 now outdir prefix ext =
     (let full = strftime_compact now;
          ts = take (length full - 3) full
      in path_join outdir (prefix @ ''_'' @ ts @ ''.'' @ ext))"

text \<open>
  The text of cap_pi6.py, lines 85 to 88 (a file that does not compile): the whole stamp
  is kept.
\<close>

definition timestamped_filename_pi6 :: "datetime \<Rightarrow> string \<Rightarrow> string \<Rightarrow> string \<Rightarrow> string" where
  "timestamped_filename_pi6 now outdir prefix ext =
     (let ts = strftime_compact now
      in path_join outdir (prefix @ ''_'' @ ts @ ''.'' @ ext))"

section \<open>Exceptions, effects and the environment\<close>

text \<open>
  Every exception of the model is a subclass of Python's \<open>Exception\<close>, so a handler
  \<open>except Exception\<close> catches each of them; \<open>UnboundLocalError\<close> is a subclass of
  \<open>NameError\<close>. An interrupt from the keyboard is not modelled.
\<close>

datatype exn =
    FileNotFoundError
  | PermissionError
  | OSError
  | CalledProcessError
  | TypeError
  | ValueError
  | OverflowError
  | UnicodeDecodeError
  | NameError string
  | UnboundLocalError string

datatype font = TrueType string int | DefaultFont

text \<open>
  A Python float as \<open>argparse\<close> with \<open>type=float\<close> can deliver it: a finite number,
  an infinity or not-a-number.
\<close>

datatype pyfloat = Finite real | PosInf | NegInf | NaN

text \<open>
  What a script does to the world, in the order it does it: directories made, frames
  captured, images saved with their overlay (path, text, position, rectangle, font),
  commands run (the attempt is recorded whether or not the command succeeds), files
  written, naps taken, files copied.
\<close>

datatype event =
    Makedirs string
  | Capture string
  | SaveImage string string "int \<times> int" "int \<times> int \<times> int \<times> int" font
  | Run "string list"
  | WriteFile string string
  | Sleep real
  | Copy string string

type_synonym trace = "event list"

text \<open>
  The collaborators the scripts call: the clock, Pillow, the shell tools, the file
  system and the camera. Each answer may depend on what has happened so far (the trace).
  A call that can raise answers with the exception: \<open>Inl e\<close>, or \<open>Some e\<close> where the
  call returns nothing. \<open>stderr_decodes\<close> says whether what a failed command wrote to
  its standard error is valid UTF-8.
\<close>

record env =
  now :: "trace \<Rightarrow> datetime"
  pil_available :: bool
  image_open :: "trace \<Rightarrow> string \<Rightarrow> exn + int \<times> int"
  truetype :: "trace \<Rightarrow> string \<Rightarrow> int \<Rightarrow> exn option"
  load_default :: "trace \<Rightarrow> exn option"
  textbbox :: "trace \<Rightarrow> string \<Rightarrow> font \<Rightarrow> exn + int \<times> int \<times> int \<times> int"
  textsize :: "trace \<Rightarrow> string \<Rightarrow> font \<Rightarrow> exn + int \<times> int"
  rectangle :: "trace \<Rightarrow> int \<times> int \<times> int \<times> int \<Rightarrow> exn option"
  draw_text :: "trace \<Rightarrow> int \<times> int \<Rightarrow> string \<Rightarrow> font \<Rightarrow> exn option"
  save :: "trace \<Rightarrow> string \<Rightarrow> exn option"
  which :: "trace \<Rightarrow> string \<Rightarrow> bool"
  run :: "trace \<Rightarrow> string list \<Rightarrow> exn option"
  stderr_decodes :: "trace \<Rightarrow> string list \<Rightarrow> bool"
  listdir :: "trace \<Rightarrow> string \<Rightarrow> exn + string list"
  getmtime :: "trace \<Rightarrow> string \<Rightarrow> exn + real"
  getsize :: "trace \<Rightarrow> string \<Rightarrow> exn + nat"
  fmt_localtime :: "real \<Rightarrow> exn + string"
  write_file :: "trace \<Rightarrow> string \<Rightarrow> string \<Rightarrow> exn option"
  makedirs :: "trace \<Rightarrow> string \<Rightarrow> exn option"
  capture_file :: "trace \<Rightarrow> string \<Rightarrow> exn option"
  copy2 :: "trace \<Rightarrow> string \<Rightarrow> string \<Rightarrow> exn option"

section \<open>The Remote Mirror\<close>

record scp_config =
  remote_user :: string
  remote_host :: string
  remote_path :: string
  ssh_key :: "string option"
  ssh_port :: int

text \<open>\<open>if ssh_key:\<close> holds for a key that is neither \<open>None\<close> nor the empty string.\<close>

definition key_args :: "string option \<Rightarrow> string list" where
  "key_args k = (case k of None \<Rightarrow> [] | Some p \<Rightarrow> if p = [] then [] else [''-i'', p])"

text \<open>The command of \<open>_ensure_remote_dir\<close> (lines 73 to 79 of capture_pi4.py).\<close>

definition ssh_cmd :: "scp_config \<Rightarrow> string list" where
  "ssh_cmd c =
     [''ssh'', ''-p'', str_int (ssh_port c)] @ key_args (ssh_key c) @
     [remote_user c @ ''@'' @ remote_host c, ''mkdir -p '' @ sq @ remote_path c @ sq]"

text \<open>The command of \<open>_scp_upload\<close> (lines 100 to 106 of capture_pi4.py).\<close>

definition scp_cmd :: "string \<Rightarrow> scp_config \<Rightarrow> string list" where
  "scp_cmd local_path c =
     (let remote_target =
            remote_user c @ ''@'' @ remote_host c @ '':'' @
            rstrip CHR ''/'' (remote_path c) @ ''/'' @ basename local_path
      in [''scp'', ''-P'', str_int (ssh_port c)] @ key_args (ssh_key c) @
         [local_path, remote_target])"

text \<open>
  \<open>subprocess.run(cmd, check=True)\<close> under \<open>except CalledProcessError\<close>: a
  non-zero exit status is the answer \<open>False\<close>, any other exception goes on to the caller.
\<close>

definition run_checked :: "env \<Rightarrow> trace \<Rightarrow> string list \<Rightarrow> (exn + bool) \<times> trace" where
  "run_checked e tr cmd =
     (case run e tr cmd of
        None \<Rightarrow> (Inr True, tr @ [Run cmd])
      | Some x \<Rightarrow> if x = CalledProcessError then (Inr False, tr @ [Run cmd])
                  else (Inl x, tr @ [Run cmd]))"

text \<open>
  The same for the \<open>scp\<close> command (lines 107 to 115 of capture_pi4.py): its handler
  decodes the captured standard error as UTF-8, and a decoding error raised there goes
  on to the caller.
\<close>

definition run_scp :: "env \<Rightarrow> trace \<Rightarrow> string list \<Rightarrow> (exn + bool) \<times> trace" where
  "run_scp e tr cmd =
     (case run e tr cmd of
        None \<Rightarrow> (Inr True, tr @ [Run cmd])
      | Some x \<Rightarrow>
          if x = CalledProcessError
          then (if stderr_decodes e tr cmd then (Inr False, tr @ [Run cmd])
                else (Inl UnicodeDecodeError, tr @ [Run cmd]))
          else (Inl x, tr @ [Run cmd]))"

definition ensure_remote_dir :: "env \<Rightarrow> trace \<Rightarrow> scp_config \<Rightarrow> (exn + bool) \<times> trace" where
  "ensure_remote_dir e tr c =
     (if \<not> which e tr ''ssh'' then (Inr False, tr)
      else run_checked e tr (ssh_cmd c))"

definition scp_upload :: "env \<Rightarrow> trace \<Rightarrow> string \<Rightarrow> scp_config \<Rightarrow> (exn + bool) \<times> trace" where
  "scp_upload e tr local_path c =
     (if \<not> which e tr ''scp'' then (Inr False, tr)
      else case ensure_remote_dir e tr c of
             (Inl x, tr1) \<Rightarrow> (Inl x, tr1)
           | (Inr ok, tr1) \<Rightarrow>
               if \<not> ok then (Inr False, tr1)
               else run_scp e tr1 (scp_cmd local_path c))"


text \<open>The transfer attempts of a trace: its \<open>scp\<close> commands.\<close>

definition transfers :: "trace \<Rightarrow> string list list" where
  "transfers tr = [cmd. Run cmd \<leftarrow> tr, take 1 cmd = [''scp'']]"

section \<open>The Index Builder\<close>

definition image_exts :: "string list" where
  "image_exts = [''jpg'', ''jpeg'', ''png'', ''gif'', ''webp'', ''mp4'']"

text \<open>The filter of the directory scan: \<open>splitext(f)[1].lstrip(".").lower() in image_exts\<close>.\<close>

definition recognized :: "string \<Rightarrow> bool" where
  "recognized f = (lower (lstrip CHR ''.'' (splitext_ext f)) \<in> set image_exts)"

text \<open>
  The \<open>try\<close> around \<open>os.listdir\<close>: only \<open>FileNotFoundError\<close> is caught and gives no
  entries; any other exception of the listing goes on to the caller.
\<close>

definition list_entries :: "env \<Rightarrow> trace \<Rightarrow> string \<Rightarrow> exn + string list" where
  "list_entries e tr outdir =
     (case listdir e tr outdir of
        Inl x \<Rightarrow> if x = FileNotFoundError then Inr [] else Inl x
      | Inr names \<Rightarrow> Inr (filter recognized names))"

text \<open>
  \<open>entries.sort(key=..., reverse=True)\<close> first computes the key of every entry, in
  order; a key that raises ends the sort with that exception.
\<close>

fun entry_keys :: "env \<Rightarrow> trace \<Rightarrow> string \<Rightarrow> string list \<Rightarrow> exn + (real \<times> string) list" where
  "entry_keys e tr outdir [] = Inr []"
| "entry_keys e tr outdir (f # fs) =
     (case getmtime e tr (path_join outdir f) of
        Inl x \<Rightarrow> Inl x
      | Inr m \<Rightarrow>
          (case entry_keys e tr outdir fs of
             Inl x \<Rightarrow> Inl x
           | Inr ks \<Rightarrow> Inr ((m, f) # ks)))"

text \<open>
  With \<open>reverse=True\<close> the list is reversed, sorted by a stable ascending sort and
  reversed again.
\<close>

definition sort_newest_first :: "(real \<times> string) list \<Rightarrow> string list" where
  "sort_newest_first kfs = map snd (rev (sort_key fst (rev kfs)))"

text \<open>
  Lines 122 to 129 of capture_pi4.py; the same statements stand in the text of
  cap_pi6.py, in \<open>build_index_html\<close> (147 to 154) and again in \<open>main\<close> (407 to 413).
\<close>

definition scan_entries :: "env \<Rightarrow> trace \<Rightarrow> string \<Rightarrow> exn + string list" where
  "scan_entries e tr outdir =
     (case list_entries e tr outdir of
        Inl x \<Rightarrow> Inl x
      | Inr entries \<Rightarrow>
          (case entry_keys e tr outdir entries of
             Inl x \<Rightarrow> Inl x
           | Inr kfs \<Rightarrow> Inr (sort_newest_first kfs)))"

definition page_head_pi4 :: "string \<Rightarrow> string list" where
  "page_head_pi4 safe_title =
     [''<!doctype html>'',
      ''<html>'',
      ''<head>'',
      ''  <meta charset='utf-8'>'',
      ''  <title>'' @ safe_title @ ''</title>'',
      ''  <meta name='viewport' content='width=device-width,initial-scale=1'>'',
      ''  <style>'',
      ''    body { font-family: Arial, sans-serif; margin: 0; padding: 1rem; }'',
      ''    .grid { display: grid; grid-template-columns: repeat(auto-fill,minmax(200px,1fr)); grid-gap: 10px; }'',
      ''    .card { border: 1px solid #ddd; padding: 6px; background: #fff; }'',
      ''    img { max-width: 100%; height: auto; display: block; }'',
      ''    .meta { font-size: 0.85rem; color: #555; margin-top: 6px; }'',
      ''  </style>'',
      ''</head>'',
      ''<body>'',
      ''  <h1>'' @ safe_title @ ''</h1>'',
      ''  <div class='grid'>'']"

text \<open>The line that opens a tile.\<close>

definition card_open :: string where
  "card_open = ''    <div class='card'>''"

text \<open>
  The modification time and size shown in a tile; both are empty when any of the three
  calls raises (\<open>except Exception\<close>).
\<close>

definition tile_meta :: "env \<Rightarrow> trace \<Rightarrow> string \<Rightarrow> string \<times> string" where
  "tile_meta e tr full_path =
     (case getmtime e tr full_path of
        Inl _ \<Rightarrow> ([], [])
      | Inr m \<Rightarrow>
          (case fmt_localtime e m of
             Inl _ \<Rightarrow> ([], [])
           | Inr mtime \<Rightarrow>
               (case getsize e tr full_path of
                  Inl _ \<Rightarrow> ([], [])
                | Inr bytes \<Rightarrow> (mtime, str_nat (bytes div 1024)))))"

text \<open>The body of the loop over the entries (lines 153 to 167 of capture_pi4.py).\<close>

definition tile :: "env \<Rightarrow> trace \<Rightarrow> string \<Rightarrow> string \<Rightarrow> string list" where
  "tile e tr outdir fn =
     (let path = html_escape fn;
          full_path = path_join outdir fn;
          mtime = fst (tile_meta e tr full_path);
          size_kb = snd (tile_meta e tr full_path)
      in [card_open,
          ''      <a href='' @ sq @ path @ sq @ ''><img src='' @ sq @ path @ sq @
            '' alt='' @ sq @ path @ sq @ ''></a>'',
          ''      <div class='meta'>'' @ path @ '' &middot; '' @ mtime @ '' &middot; '' @
            size_kb @ '' KB</div>'',
          ''    </div>''])"

definition page_foot :: "string list" where
  "page_foot = [''  </div>'', ''</body>'', ''</html>'']"

definition html_lines_pi4 :: "env \<Rightarrow> trace \<Rightarrow> string \<Rightarrow> string \<Rightarrow> string list \<Rightarrow> string list" where
  "html_lines_pi4 e tr outdir title entries =
     page_head_pi4 (html_escape title) @ concat (map (tile e tr outdir) entries) @ page_foot"

text \<open>
  The end of \<open>build_index_html\<close>: the page is written to \<open>index.html\<close> in the output
  directory; a write that raises gives \<open>None\<close>.
\<close>

definition write_index :: "env \<Rightarrow> trace \<Rightarrow> string \<Rightarrow> string list \<Rightarrow> (exn + string option) \<times> trace" where
  "write_index e tr outdir html_lines =
     (let index_path = path_join outdir ''index.html'';
          content = str_join [CHR 0x0A] html_lines
      in case write_file e tr index_path content of
           None \<Rightarrow> (Inr (Some index_path), tr @ [WriteFile index_path content])
         | Some _ \<Rightarrow> (Inr None, tr))"

definition build_index_html_pi4 :: "env \<Rightarrow> trace \<Rightarrow> string \<Rightarrow> string \<Rightarrow> (exn + string option) \<times> trace" where
  "build_index_html_pi4 e tr outdir title =
     (case scan_entries e tr outdir of
        Inl x \<Rightarrow> (Inl x, tr)
      | Inr entries \<Rightarrow> write_index e tr outdir (html_lines_pi4 e tr outdir title entries))"

text \<open>The tiles of a page: the lines that open one.\<close>

definition count_tiles :: "string list \<Rightarrow> nat" where
  "count_tiles html_lines = length (filter (\<lambda>l. l = card_open) html_lines)"

text \<open>
  The index step of a capture (lines 263 to 266 of capture_pi4.py): the index is
  published only when it was written and a remote target is configured.
\<close>

definition index_step_pi4 ::
  "env \<Rightarrow> trace \<Rightarrow> string \<Rightarrow> bool \<Rightarrow> string \<Rightarrow> scp_config option \<Rightarrow> (exn + unit) \<times> trace" where
  "index_step_pi4 e tr outdir build_index index_title cfg =
     (if \<not> build_index then (Inr (), tr)
      else case build_index_html_pi4 e tr outdir index_title of
             (Inl x, tr1) \<Rightarrow> (Inl x, tr1)
           | (Inr idx, tr1) \<Rightarrow>
               (case (idx, cfg) of
                  (Some index_path, Some c) \<Rightarrow>
                    (case scp_upload e tr1 index_path c of
                       (Inl x, tr2) \<Rightarrow> (Inl x, tr2)
                     | (Inr _, tr2) \<Rightarrow> (Inr (), tr2))
                | _ \<Rightarrow> (Inr (), tr1)))"

text \<open>
  \<open>a\<close> stands before \<open>b\<close> in a newest-first list: both modification times can be read
  and that of \<open>a\<close> is not the older one.
\<close>

definition newer_or_same :: "env \<Rightarrow> trace \<Rightarrow> string \<Rightarrow> string \<Rightarrow> string \<Rightarrow> bool" where
  "newer_or_same e tr outdir a b =
     (case (getmtime e tr (path_join outdir a), getmtime e tr (path_join outdir b)) of
        (Inr x, Inr y) \<Rightarrow> y \<le> x
      | _ \<Rightarrow> False)"

section \<open>The Annotator\<close>

text \<open>
  The font: the caller's font if one is given and loads, else DejaVu Sans Bold if it
  loads, else Pillow's built-in font. A \<open>truetype\<close> that raises leaves the font unset.
\<close>

definition common_font :: string where
  "common_font = ''/usr/share/fonts/truetype/dejavu/DejaVuSans-Bold.ttf''"

definition choose_font :: "env \<Rightarrow> trace \<Rightarrow> string option \<Rightarrow> int \<Rightarrow> exn + font" where
  "choose_font e tr font_path font_size =
     (let first =
            (case font_path of
               None \<Rightarrow> None
             | Some p \<Rightarrow>
                 if p \<noteq> [] \<and> truetype e tr p font_size = None then Some (TrueType p font_size)
                 else None);
          second =
            (case first of
               Some f \<Rightarrow> Some f
             | None \<Rightarrow>
                 if truetype e tr common_font font_size = None
                 then Some (TrueType common_font font_size)
                 else None)
      in case second of
           Some f \<Rightarrow> Inr f
         | None \<Rightarrow> (case load_default e tr of None \<Rightarrow> Inr DefaultFont | Some ex \<Rightarrow> Inl ex))"

text \<open>The size of the text: \<open>textbbox\<close>, and \<open>textsize\<close> when that raises.\<close>

definition measure_text :: "env \<Rightarrow> trace \<Rightarrow> string \<Rightarrow> font \<Rightarrow> exn + int \<times> int" where
  "measure_text e tr text f =
     (case textbbox e tr text f of
        Inr (x0, y0, x1, y1) \<Rightarrow> Inr (x1 - x0, y1 - y0)
      | Inl _ \<Rightarrow> textsize e tr text f)"

text \<open>
  The body of the \<open>try\<close> of \<open>_annotate_image_with_timestamp\<close> (lines 198 to 245 of
  capture_pi4.py), with the exception it ends on, if any.
\<close>

definition draw_overlay :: "env \<Rightarrow> trace \<Rightarrow> string \<Rightarrow> string \<Rightarrow> string option \<Rightarrow> (exn + unit) \<times> trace" where
  "draw_overlay e tr image_path text font_path =
     (case image_open e tr image_path of
        Inl ex \<Rightarrow> (Inl ex, tr)
      | Inr (width, height) \<Rightarrow>
          (case choose_font e tr font_path (max 14 (width div 40)) of
             Inl ex \<Rightarrow> (Inl ex, tr)
           | Inr f \<Rightarrow>
               (case measure_text e tr text f of
                  Inl ex \<Rightarrow> (Inl ex, tr)
                | Inr (text_w, text_h) \<Rightarrow>
                    (let margin = max 8 (width div 200);
                         x = width - text_w - margin;
                         y = height - text_h - margin;
                         rect_pad = max 4 (margin div 2);
                         rect_coords =
                           (x - rect_pad, y - rect_pad, x + text_w + rect_pad, y + text_h + rect_pad)
                     in case rectangle e tr rect_coords of
                          Some ex \<Rightarrow> (Inl ex, tr)
                        | None \<Rightarrow>
                            (case draw_text e tr (x, y) text f of
                               Some ex \<Rightarrow> (Inl ex, tr)
                             | None \<Rightarrow>
                                 (case save e tr image_path of
                                    Some ex \<Rightarrow> (Inl ex, tr)
                                  | None \<Rightarrow>
                                      (Inr (), tr @ [SaveImage image_path text (x, y) rect_coords f])))))))"

text \<open>capture_pi4.py, lines 185 to 248.\<close>

definition annotate_image_with_timestamp_pi4 ::
  "env \<Rightarrow> trace \<Rightarrow> string \<Rightarrow> string option \<Rightarrow> string option \<Rightarrow> (exn + bool) \<times> trace" where
  "annotate_image_with_timestamp_pi4 e tr image_path text font_path =
     (if \<not> pil_available e then (Inr False, tr)
      else let t = (case text of None \<Rightarrow> strftime_human (now e tr) | Some t \<Rightarrow> t)
           in case draw_overlay e tr image_path t font_path of
                (Inl _, tr1) \<Rightarrow> (Inr False, tr1)
              | (Inr _, tr1) \<Rightarrow> (Inr True, tr1))"

section \<open>The Capture Session\<close>

text \<open>\<open>if scp_config: _scp_upload(fname, **scp_config)\<close>.\<close>

definition upload_if_configured ::
  "env \<Rightarrow> trace \<Rightarrow> string \<Rightarrow> scp_config option \<Rightarrow> (exn + bool) \<times> trace" where
  "upload_if_configured e tr local_path cfg =
     (case cfg of None \<Rightarrow> (Inr False, tr) | Some c \<Rightarrow> scp_upload e tr local_path c)"

text \<open>capture_pi4.py, lines 250 to 266.\<close>

definition single_capture_pi4 ::
  "env \<Rightarrow> trace \<Rightarrow> string \<Rightarrow> scp_config option \<Rightarrow> bool \<Rightarrow> string \<Rightarrow> (exn + unit) \<times> trace" where
  "single_capture_pi4 e tr outdir cfg build_index index_title =
     (case makedirs e tr outdir of
        Some ex \<Rightarrow> (Inl ex, tr)
      | None \<Rightarrow>
          (let tr1 = tr @ [Makedirs outdir];
               fname = timestamped_filename_pi4 (now e tr1) outdir ''image'' ''jpg''
           in case capture_file e tr1 fname of
                Some ex \<Rightarrow> (Inl ex, tr1)
              | None \<Rightarrow>
                  (let tr2 = tr1 @ [Capture fname];
                       ts_text = strftime_human (now e tr2)
                   in case annotate_image_with_timestamp_pi4 e tr2 fname (Some ts_text) None of
                        (Inl ex, tr3) \<Rightarrow> (Inl ex, tr3)
                      | (Inr _, tr3) \<Rightarrow>
                          (case upload_if_configured e tr3 fname cfg of
                             (Inl ex, tr4) \<Rightarrow> (Inl ex, tr4)
                           | (Inr _, tr4) \<Rightarrow>
                               index_step_pi4 e tr4 outdir build_index index_title cfg))))"

text \<open>The loop condition \<open>count is None or i < count\<close>.\<close>

definition keep_going :: "int option \<Rightarrow> nat \<Rightarrow> bool" where
  "keep_going count i = (case count of None \<Rightarrow> True | Some n \<Rightarrow> int i < n)"

text \<open>
  \<open>time.sleep(interval)\<close>, as CPython 3.11 has it: the seconds are turned into
  nanoseconds that must fit 64 bits, then a negative time is refused. Not-a-number gives
  \<open>ValueError\<close>, an infinity or a number beyond the 64 bits \<open>OverflowError\<close>, any other
  negative number \<open>ValueError\<close>.
\<close>

definition sleep :: "trace \<Rightarrow> pyfloat \<Rightarrow> (exn + unit) \<times> trace" where
  "sleep tr interval =
     (case interval of
        NaN \<Rightarrow> (Inl ValueError, tr)
      | PosInf \<Rightarrow> (Inl OverflowError, tr)
      | NegInf \<Rightarrow> (Inl OverflowError, tr)
      | Finite x \<Rightarrow>
          if 9223372036854775808 \<le> x * 1000000000 \<or> x * 1000000000 < - 9223372036854775808
          then (Inl OverflowError, tr)
          else if x < 0 then (Inl ValueError, tr)
          else (Inr (), tr @ [Sleep x]))"

text \<open>
  One turn of the loop of \<open>timelapse_capture\<close> in capture_pi4.py (lines 273 to 287).
  The uploads of that loop are commented out in the source.
\<close>

definition timelapse_step_pi4 ::
  "env \<Rightarrow> string \<Rightarrow> pyfloat \<Rightarrow> bool \<Rightarrow> string \<Rightarrow> nat \<Rightarrow> trace \<Rightarrow> (exn + unit) \<times> trace" where
  "timelapse_step_pi4 e outdir interval build_index index_title i tr =
     (let fname = timestamped_filename_pi4 (now e tr) outdir (''img'' @ fmt_0d 4 i) ''jpg''
      in case capture_file e tr fname of
           Some ex \<Rightarrow> (Inl ex, tr)
         | None \<Rightarrow>
             (let tr1 = tr @ [Capture fname];
                  ts_text = strftime_human (now e tr1)
              in case annotate_image_with_timestamp_pi4 e tr1 fname (Some ts_text) None of
                   (Inl ex, tr2) \<Rightarrow> (Inl ex, tr2)
                 | (Inr _, tr2) \<Rightarrow>
                     (case (if build_index then build_index_html_pi4 e tr2 outdir index_title
                            else (Inr None, tr2)) of
                        (Inl ex, tr3) \<Rightarrow> (Inl ex, tr3)
                      | (Inr _, tr3) \<Rightarrow> sleep tr3 interval)))"

text \<open>
  The \<open>while\<close> loop. Without a count it never ends by itself, so the loop is a partial
  function: \<open>None\<close> stands for a loop that does not return.
\<close>

partial_function (option) timelapse_loop_pi4 ::
  "env \<Rightarrow> string \<Rightarrow> pyfloat \<Rightarrow> int option \<Rightarrow> bool \<Rightarrow> string \<Rightarrow> nat \<Rightarrow> trace \<Rightarrow>
   ((exn + unit) \<times> trace) option" where
  "timelapse_loop_pi4 e outdir interval count build_index index_title i tr =
     (if keep_going count i then
        (case timelapse_step_pi4 e outdir interval build_index index_title i tr of
           (Inl ex, tr1) \<Rightarrow> Some (Inl ex, tr1)
         | (Inr _, tr1) \<Rightarrow>
             timelapse_loop_pi4 e outdir interval count build_index index_title (Suc i) tr1)
      else Some (Inr (), tr))"

declare timelapse_loop_pi4.simps [code]

text \<open>\<open>timelapse_capture\<close>: the directory is made first, then the loop starts at 0.\<close>

definition timelapse_capture_pi4 ::
  "env \<Rightarrow> trace \<Rightarrow> string \<Rightarrow> pyfloat \<Rightarrow> int option \<Rightarrow> bool \<Rightarrow> string \<Rightarrow>
   ((exn + unit) \<times> trace) option" where
  "timelapse_capture_pi4 e tr outdir interval count build_index index_title =
     (case makedirs e tr outdir of
        Some ex \<Rightarrow> Some (Inl ex, tr)
      | None \<Rightarrow>
          timelapse_loop_pi4 e outdir interval count build_index index_title 0
            (tr @ [Makedirs outdir]))"

text \<open>The files a trace captured, in order.\<close>

definition captures :: "trace \<Rightarrow> string list" where
  "captures tr = [f. Capture f \<leftarrow> tr]"

section \<open>Finalizing\<close>


text \<open>The commands of a trace, remote or not.\<close>

definition runs :: "trace \<Rightarrow> string list list" where
  "runs tr = [cmd. Run cmd \<leftarrow> tr]"

section \<open>Lines 407 to 421 of cap_pi6.py, as written\<close>




text \<open>The thumbnail copies of a trace: source and destination.\<close>

definition copies :: "trace \<Rightarrow> (string \<times> string) list" where
  "copies tr = [(a, b). Copy a b \<leftarrow> tr]"

section \<open>Concrete environments\<close>

text \<open>
  A device on which everything works: Pillow is installed, the tools are found, every
  command succeeds, the output directory is empty. The clock stands at noon and moves
  on by five seconds with every nap.
\<close>

definition naps :: "trace \<Rightarrow> nat" where
  "naps tr = length [x \<leftarrow> tr. case x of Sleep _ \<Rightarrow> True | _ \<Rightarrow> False]"

definition noon :: "nat \<Rightarrow> datetime" where
  "noon s = \<lparr>year = 2025, month = 1, day = 1, hour = 12, minute = 0, second = s\<rparr>"

definition env_ok :: env where
  "env_ok =
     \<lparr>now = (\<lambda>tr. noon (5 * naps tr)),
      pil_available = True,
      image_open = (\<lambda>tr p. Inr (640, 480)),
      truetype = (\<lambda>tr p n. None),
      load_default = (\<lambda>tr. None),
      textbbox = (\<lambda>tr t f. Inr (0, 0, 100, 10)),
      textsize = (\<lambda>tr t f. Inr (100, 10)),
      rectangle = (\<lambda>tr r. None),
      draw_text = (\<lambda>tr xy t f. None),
      save = (\<lambda>tr p. None),
      which = (\<lambda>tr n. True),
      run = (\<lambda>tr cmd. None),
      stderr_decodes = (\<lambda>tr cmd. True),
      listdir = (\<lambda>tr d. Inr []),
      getmtime = (\<lambda>tr p. Inr 0),
      getsize = (\<lambda>tr p. Inr 0),
      fmt_localtime = (\<lambda>t. Inr ''2025-01-01 12:00:00''),
      write_file = (\<lambda>tr p c. None),
      makedirs = (\<lambda>tr p. None),
      capture_file = (\<lambda>tr p. None),
      copy2 = (\<lambda>tr a b. None)\<rparr>"

definition cfg_ok :: scp_config where
  "cfg_ok =
     \<lparr>remote_user = ''pi'', remote_host = ''owl.example.org'', remote_path = ''/srv/www/'',
      ssh_key = Some ''/home/pi/.ssh/k.pem'', ssh_port = 22\<rparr>"

text \<open>The same device when the remote host refuses every \<open>ssh\<close> command.\<close>

definition env_ssh_refused :: env where
  "env_ssh_refused =
     env_ok\<lparr>run := (\<lambda>tr cmd. if take 1 cmd = [''ssh''] then Some CalledProcessError else None)\<rparr>"

text \<open>The same device when the output directory may not be listed.\<close>

definition env_unreadable :: env where
  "env_unreadable = env_ok\<lparr>listdir := (\<lambda>tr d. Inl PermissionError)\<rparr>"

text \<open>
  The same device with three images and a text file in the output directory; the
  second image is the newest, the other two are of the same age.
\<close>

definition env_three :: env where
  "env_three =
     env_ok\<lparr>listdir := (\<lambda>tr d. Inr [''a.jpg'', ''notes.txt'', ''b.JPG'', ''c.png'']),
            getmtime := (\<lambda>tr p. if p = ''./images/b.JPG'' then Inr 30 else Inr 10),
            getsize := (\<lambda>tr p. Inr 4100)\<rparr>"

text \<open>
  The same device when the output directory does not exist: it cannot be listed, and no
  file can be created in it.
\<close>

definition env_missing_dir :: env where
  "env_missing_dir =
     env_ok\<lparr>listdir := (\<lambda>tr d. Inl FileNotFoundError),
            write_file := (\<lambda>tr p c. Some FileNotFoundError)\<rparr>"

text \<open>The same device without Pillow.\<close>

definition env_no_pillow :: env where
  "env_no_pillow = env_ok\<lparr>pil_available := False\<rparr>"

text \<open>The same device when the captured file cannot be opened as an image.\<close>

definition env_corrupt_image :: env where
  "env_corrupt_image = env_ok\<lparr>image_open := (\<lambda>tr p. Inl OSError)\<rparr>"

text \<open>The same device without any TrueType font.\<close>

definition env_no_fonts :: env where
  "env_no_fonts = env_ok\<lparr>truetype := (\<lambda>tr p n. Some OSError)\<rparr>"

text \<open>
  The device with the three images when the size of a file cannot be read (the file
  has gone between the two calls).
\<close>

definition env_size_fails :: env where
  "env_size_fails = env_three\<lparr>getsize := (\<lambda>tr p. Inl FileNotFoundError)\<rparr>"

section \<open>Properties\<close>

subsection \<open>Naming\<close>

text \<open>
  C1. The claim: two captures taken at distinct clock seconds never get the same file
  name. In capture_pi4.py the slice \<open>[:-3]\<close> cuts the seconds and the last digit of the
  minute off the stamp, so two presses of the button one second apart are saved under
  one name, and the second capture overwrites the first.
\<close>

theorem timestamped_filename_pi4_collision:
  "noon 1 \<noteq> noon 2 \<and>
   timestamped_filename_pi4 (noon 1) ''./images'' ''btn'' ''jpg'' = ''./images/btn_20250101_120.jpg'' \<and>
   timestamped_filename_pi4 (noon 2) ''./images'' ''btn'' ''jpg'' = ''./images/btn_20250101_120.jpg''"
  by (simp add: noon_def timestamped_filename_pi4_def strftime_compact_def fmt_0d_def
      str_nat.simps digit_char_def path_join_def)

subsection \<open>Number formats\<close>

lemma str_nat_small: "n < 10 \<Longrightarrow> str_nat n = [digit_char n]"
  by (simp add: str_nat.simps)

lemma str_nat_two: "10 \<le> n \<Longrightarrow> n < 100 \<Longrightarrow> str_nat n = [digit_char (n div 10), digit_char (n mod 10)]"
  by (subst str_nat.simps) (simp add: str_nat_small)

lemma replicate_numeral: "replicate (numeral v) x = x # replicate (numeral v - 1) x"
  by (simp add: numeral_eq_Suc)

lemma fmt_small:
  "fmt_0d 4 0 = ''0000''" "fmt_0d 4 1 = ''0001''" "fmt_0d 4 2 = ''0002''" "fmt_0d 4 2025 = ''2025''"
  "fmt_0d 2 0 = ''00''" "fmt_0d 2 1 = ''01''" "fmt_0d 2 5 = ''05''" "fmt_0d 2 10 = ''10''"
  "fmt_0d 2 12 = ''12''" "fmt_0d 4 (Suc 0) = ''0001''" "fmt_0d 4 (Suc (Suc 0)) = ''0002''"
  "fmt_0d 2 (Suc 0) = ''01''"
  by (simp_all add: fmt_0d_def str_nat.simps digit_char_def replicate_numeral)

subsection \<open>Naming in the text of cap_pi6.py\<close>

lemma digit_char_code: "a < 10 \<Longrightarrow> of_char (digit_char a) = (48 + a :: nat)"
  by (auto simp: digit_char_def)

lemma digit_char_inj:
  assumes "a < 10" "b < 10" "digit_char a = digit_char b"
  shows "a = b"
proof -
  have "(48 + a :: nat) = of_char (digit_char a)"
    using digit_char_code [OF assms(1)] by (rule sym)
  also have "\<dots> = of_char (digit_char b)"
    by (simp only: assms(3))
  also have "\<dots> = 48 + b"
    by (rule digit_char_code [OF assms(2)])
  finally show ?thesis
    by simp
qed

lemma fmt_two_digits: "n < 100 \<Longrightarrow> fmt_0d 2 n = [digit_char (n div 10), digit_char (n mod 10)]"
proof (cases "n < 10")
  case True
  then show ?thesis
    by (simp add: fmt_0d_def str_nat_small digit_char_def)
next
  case False
  assume "n < 100"
  with False show ?thesis
    by (simp add: fmt_0d_def str_nat_two)
qed

lemma fmt_four_digits:
  assumes "1000 \<le> n" "n \<le> 9999"
  shows "fmt_0d 4 n =
    [digit_char (n div 1000), digit_char (n div 100 mod 10), digit_char (n div 10 mod 10),
     digit_char (n mod 10)]"
proof -
  have a: "str_nat n = str_nat (n div 10) @ [digit_char (n mod 10)]"
    using assms by (subst str_nat.simps) simp
  have "\<not> n div 10 < 10" "n div 10 div 10 = n div 100"
    using assms by simp_all
  then have b: "str_nat (n div 10) = str_nat (n div 100) @ [digit_char (n div 10 mod 10)]"
    using str_nat.simps [of "n div 10"] by (simp only: if_False)
  have "10 \<le> n div 100" "n div 100 < 100" "n div 100 div 10 = n div 1000"
    using assms by simp_all
  then have c: "str_nat (n div 100) = [digit_char (n div 1000), digit_char (n div 100 mod 10)]"
    using str_nat_two [of "n div 100"] by simp
  show ?thesis
    by (simp add: fmt_0d_def a b c)
qed

lemma same_div_mod: "(x::nat) div 10 = y div 10 \<Longrightarrow> x mod 10 = y mod 10 \<Longrightarrow> x = y"
  by (metis div_mult_mod_eq)

lemma fmt_two_inj:
  assumes "a < 100" "b < 100" "fmt_0d 2 a = fmt_0d 2 b"
  shows "a = b"
proof -
  have "digit_char (a div 10) = digit_char (b div 10)" "digit_char (a mod 10) = digit_char (b mod 10)"
    using assms by (simp_all add: fmt_two_digits)
  then have "a div 10 = b div 10" "a mod 10 = b mod 10"
    using assms(1,2) by (auto intro: digit_char_inj)
  then show ?thesis
    by (rule same_div_mod)
qed

lemma fmt_four_inj:
  assumes "1000 \<le> a" "a \<le> 9999" "1000 \<le> b" "b \<le> 9999" "fmt_0d 4 a = fmt_0d 4 b"
  shows "a = b"
proof -
  have "digit_char (a div 1000) = digit_char (b div 1000)"
       "digit_char (a div 100 mod 10) = digit_char (b div 100 mod 10)"
       "digit_char (a div 10 mod 10) = digit_char (b div 10 mod 10)"
       "digit_char (a mod 10) = digit_char (b mod 10)"
    using assms by (simp_all add: fmt_four_digits)
  then have "a div 1000 = b div 1000" "a div 100 mod 10 = b div 100 mod 10"
       "a div 10 mod 10 = b div 10 mod 10" "a mod 10 = b mod 10"
    using assms(1-4) by (auto intro!: digit_char_inj)
  then have e: "a div 100 div 10 = b div 100 div 10" "a div 100 mod 10 = b div 100 mod 10"
       "a div 10 mod 10 = b div 10 mod 10" "a mod 10 = b mod 10"
    by (simp_all add: div_mult2_eq [symmetric])
  have "a div 100 = b div 100"
    using e(1,2) by (rule same_div_mod)
  then have "a div 10 div 10 = b div 10 div 10"
    by (simp add: div_mult2_eq [symmetric])
  then have "a div 10 = b div 10"
    using e(3) by (rule same_div_mod)
  then show ?thesis
    using e(4) by (rule same_div_mod)
qed

lemma strftime_compact_inj:
  assumes "valid_datetime d1" "valid_datetime d2" "strftime_compact d1 = strftime_compact d2"
  shows "d1 = d2"
proof -
  have eq: "fmt_0d 4 (year d1) = fmt_0d 4 (year d2)" "fmt_0d 2 (month d1) = fmt_0d 2 (month d2)"
    "fmt_0d 2 (day d1) = fmt_0d 2 (day d2)" "fmt_0d 2 (hour d1) = fmt_0d 2 (hour d2)"
    "fmt_0d 2 (minute d1) = fmt_0d 2 (minute d2)" "fmt_0d 2 (second d1) = fmt_0d 2 (second d2)"
    using assms by (simp_all add: strftime_compact_def valid_datetime_def fmt_two_digits fmt_four_digits)
  have v: "1000 \<le> year d1" "year d1 \<le> 9999" "1000 \<le> year d2" "year d2 \<le> 9999"
    "month d1 < 100" "month d2 < 100" "day d1 < 100" "day d2 < 100" "hour d1 < 100" "hour d2 < 100"
    "minute d1 < 100" "minute d2 < 100" "second d1 < 100" "second d2 < 100"
    using assms(1,2) by (simp_all add: valid_datetime_def)
  have "year d1 = year d2"
    using v(1-4) eq(1) by (rule fmt_four_inj)
  moreover have "month d1 = month d2"
    using v(5,6) eq(2) by (rule fmt_two_inj)
  moreover have "day d1 = day d2"
    using v(7,8) eq(3) by (rule fmt_two_inj)
  moreover have "hour d1 = hour d2"
    using v(9,10) eq(4) by (rule fmt_two_inj)
  moreover have "minute d1 = minute d2"
    using v(11,12) eq(5) by (rule fmt_two_inj)
  moreover have "second d1 = second d2"
    using v(13,14) eq(6) by (rule fmt_two_inj)
  ultimately show ?thesis
    by simp
qed

lemma length_strftime_compact: "valid_datetime d \<Longrightarrow> length (strftime_compact d) = 15"
  by (simp add: strftime_compact_def valid_datetime_def fmt_two_digits fmt_four_digits)

lemma path_join_same_head:
  assumes "path_join a (p @ CHR ''_'' # x) = path_join a (p @ CHR ''_'' # y)"
  shows "x = y"
proof -
  have h: "hd (p @ CHR ''_'' # x) = hd (p @ CHR ''_'' # y)"
    by (cases p) simp_all
  show ?thesis
    using assms h by (auto simp: path_join_def split: if_splits)
qed

text \<open>
  As written in cap_pi6.py, \<open>timestamped_filename\<close> keeps the claim of C1: two readings
  of the clock that differ (in the second or in any other field) give different file
  names, for the same directory, prefix and extension.
\<close>

lemma timestamped_filename_pi6_distinct:
  assumes "valid_datetime d1" "valid_datetime d2" "d1 \<noteq> d2"
  shows "timestamped_filename_pi6 d1 outdir prefix ext \<noteq> timestamped_filename_pi6 d2 outdir prefix ext"
proof
  assume "timestamped_filename_pi6 d1 outdir prefix ext = timestamped_filename_pi6 d2 outdir prefix ext"
  then have "strftime_compact d1 @ ''.'' @ ext = strftime_compact d2 @ ''.'' @ ext"
    using path_join_same_head [of outdir prefix "strftime_compact d1 @ ''.'' @ ext" "strftime_compact d2 @ ''.'' @ ext"]
    by (simp add: timestamped_filename_pi6_def Let_def)
  then have "strftime_compact d1 = strftime_compact d2"
    using length_strftime_compact [OF assms(1)] length_strftime_compact [OF assms(2)] by simp
  then show False
    using strftime_compact_inj assms by blast
qed

subsection \<open>Remote Mirror\<close>

lemma transfers_append: "transfers (a @ b) = transfers a @ transfers b"
  by (simp add: transfers_def)

lemma transfers_ssh: "transfers [Run (ssh_cmd c)] = []"
  by (simp add: transfers_def ssh_cmd_def)

lemma run_checked_trace: "snd (run_checked e tr cmd) = tr @ [Run cmd]"
  by (simp add: run_checked_def split: option.splits)

lemma run_scp_trace: "snd (run_scp e tr cmd) = tr @ [Run cmd]"
  by (simp add: run_scp_def split: option.splits)

lemma ensure_remote_dir_trace:
  "snd (ensure_remote_dir e tr c) = tr \<or> snd (ensure_remote_dir e tr c) = tr @ [Run (ssh_cmd c)]"
  by (simp add: ensure_remote_dir_def run_checked_trace)

lemma ensure_remote_dir_transfers: "transfers (snd (ensure_remote_dir e tr c)) = transfers tr"
  using ensure_remote_dir_trace [of e tr c]
  by (auto simp: transfers_append transfers_ssh)

lemma ensure_remote_dir_True:
  "fst (ensure_remote_dir e tr c) = Inr True \<Longrightarrow> snd (ensure_remote_dir e tr c) = tr @ [Run (ssh_cmd c)]"
  by (auto simp: ensure_remote_dir_def run_checked_trace split: if_splits)

text \<open>
  C2. When the directory-ensure step does not succeed (it answers \<open>False\<close>, or raises),
  \<open>_scp_upload\<close> makes no transfer attempt and does not report success; when it answers
  \<open>False\<close> the upload answers \<open>False\<close>. A transfer attempt is made only when \<open>scp\<close>
  is found and the ensure step has answered \<open>True\<close>, and it is the command that follows
  the ensure step's own command.
\<close>

theorem scp_upload_only_after_ensure:
  "(fst (ensure_remote_dir e tr c) \<noteq> Inr True \<longrightarrow>
      transfers (snd (scp_upload e tr p c)) = transfers tr \<and>
      fst (scp_upload e tr p c) \<noteq> Inr True) \<and>
   (fst (ensure_remote_dir e tr c) = Inr False \<longrightarrow> fst (scp_upload e tr p c) = Inr False) \<and>
   (transfers (snd (scp_upload e tr p c)) \<noteq> transfers tr \<longrightarrow>
      which e tr ''scp'' \<and> fst (ensure_remote_dir e tr c) = Inr True \<and>
      snd (scp_upload e tr p c) = tr @ [Run (ssh_cmd c), Run (scp_cmd p c)])"
proof (cases "which e tr ''scp''")
  case False
  then show ?thesis by (simp add: scp_upload_def)
next
  case scp: True
  obtain r tr1 where r: "ensure_remote_dir e tr c = (r, tr1)"
    by (cases "ensure_remote_dir e tr c")
  have tr1: "transfers tr1 = transfers tr"
    using ensure_remote_dir_transfers [of e tr c] r by simp
  show ?thesis
  proof (cases "r = Inr True")
    case True
    have "tr1 = tr @ [Run (ssh_cmd c)]"
      using ensure_remote_dir_True [of e tr c] r True by simp
    then show ?thesis
      using scp r True by (simp add: scp_upload_def run_scp_trace)
  next
    case False
    then have "scp_upload e tr p c = (r, tr1)"
      using scp r by (cases r) (auto simp: scp_upload_def)
    then show ?thesis
      using r False tr1 by simp
  qed
qed

theorem scp_upload_only_after_ensure_witness:
  "fst (ensure_remote_dir env_ssh_refused [] cfg_ok) = Inr False \<and>
   fst (scp_upload env_ssh_refused [] ''./images/a.jpg'' cfg_ok) = Inr False \<and>
   transfers (snd (scp_upload env_ssh_refused [] ''./images/a.jpg'' cfg_ok)) = []"
proof -
  have h: "fst (ensure_remote_dir env_ssh_refused [] cfg_ok) = Inr False"
    by (simp add: ensure_remote_dir_def run_checked_def env_ssh_refused_def env_ok_def ssh_cmd_def)
  show ?thesis
    using h scp_upload_only_after_ensure [of env_ssh_refused "[]" cfg_ok "''./images/a.jpg''"]
    by (simp add: transfers_def)
qed

subsection \<open>Index Builder\<close>

lemma entry_keys_Inr:
  "entry_keys e tr outdir fs = Inr kfs \<Longrightarrow>
   map snd kfs = fs \<and> (\<forall>p \<in> set kfs. getmtime e tr (path_join outdir (snd p)) = Inr (fst p))"
  by (induction fs arbitrary: kfs) (auto split: sum.splits)

lemma entry_keys_cong:
  "(\<forall>f \<in> set fs. getmtime e' tr' (path_join outdir f) = getmtime e tr (path_join outdir f)) \<Longrightarrow>
   entry_keys e' tr' outdir fs = entry_keys e tr outdir fs"
  by (induction fs) (auto split: sum.splits)

lemma sort_newest_first_descending:
  "sorted_wrt (\<lambda>a b. fst b \<le> fst a) (rev (sort_key fst (rev kfs)))"
proof -
  have "sorted (map fst (sort_key fst (rev kfs)))"
    by (rule sorted_sort_key)
  then have "sorted_wrt (\<lambda>a b. fst a \<le> fst b) (sort_key fst (rev kfs))"
    by (simp add: sorted_map)
  then show ?thesis
    by (simp add: sorted_wrt_rev)
qed

lemma sort_newest_first_stable:
  "filter (\<lambda>p. fst p = m) (rev (sort_key fst (rev kfs))) = filter (\<lambda>p. fst p = m) kfs"
proof -
  have "filter (\<lambda>p. fst p = m) (rev (sort_key fst (rev kfs))) =
        rev (filter (\<lambda>p. fst p = m) (sort_key fst (rev kfs)))"
    by (simp add: rev_filter)
  also have "\<dots> = rev (filter (\<lambda>p. fst p = m) (rev kfs))"
    by (simp only: sort_key_stable)
  also have "\<dots> = filter (\<lambda>p. fst p = m) kfs"
    by (simp add: rev_filter)
  finally show ?thesis .
qed

lemma scan_entries_sorted:
  assumes scan: "scan_entries e tr outdir = Inr es"
  shows "sorted_wrt (newer_or_same e tr outdir) es"
proof -
  let ?mt = "\<lambda>f. getmtime e tr (path_join outdir f)"
  let ?s = "\<lambda>kfs. rev (sort_key fst (rev kfs))"
  from scan obtain names kfs where
    keys: "entry_keys e tr outdir names = Inr kfs" and
    es: "es = map snd (?s kfs)"
    by (auto simp: scan_entries_def sort_newest_first_def split: sum.splits)
  from entry_keys_Inr [OF keys] have
    mt: "\<And>p. p \<in> set kfs \<Longrightarrow> ?mt (snd p) = Inr (fst p)"
    by auto
  have "sorted_wrt (\<lambda>a b. newer_or_same e tr outdir (snd a) (snd b)) (?s kfs)"
    using sort_newest_first_descending [of kfs]
    by (rule sorted_wrt_mono_rel [rotated]) (simp add: newer_or_same_def mt)
  then show ?thesis
    by (simp add: es sorted_wrt_map)
qed

text \<open>
  The last entry of a scan is an oldest one: every entry before it is at least as new.
\<close>

lemma scan_entries_last_is_oldest:
  assumes "scan_entries e tr outdir = Inr es" "es \<noteq> []"
  shows "\<forall>f \<in> set (butlast es). newer_or_same e tr outdir f (last es)"
proof -
  from scan_entries_sorted [OF assms(1)]
  have "sorted_wrt (newer_or_same e tr outdir) (butlast es @ [last es])"
    using assms(2) by simp
  then show ?thesis
    by (simp add: sorted_wrt_append)
qed

text \<open>
  C5. The entries of a scan are the recognized names of the directory, newest first;
  entries of one modification time keep the order of the directory listing (the sort is
  stable); and a second scan that finds the same listing and the same modification
  times gives the same list.
\<close>

theorem scan_entries_newest_first:
  assumes scan: "scan_entries e tr outdir = Inr es"
  shows "\<exists>names. list_entries e tr outdir = Inr names \<and>
           sorted_wrt (newer_or_same e tr outdir) es \<and>
           (\<forall>m. filter (\<lambda>f. getmtime e tr (path_join outdir f) = Inr m) es =
                filter (\<lambda>f. getmtime e tr (path_join outdir f) = Inr m) names) \<and>
           set es = set names \<and> length es = length names \<and>
           (\<forall>e' tr'. listdir e' tr' outdir = listdir e tr outdir \<and>
                (\<forall>f \<in> set names. getmtime e' tr' (path_join outdir f) =
                                  getmtime e tr (path_join outdir f)) \<longrightarrow>
                scan_entries e' tr' outdir = Inr es)"
proof -
  let ?mt = "\<lambda>f. getmtime e tr (path_join outdir f)"
  let ?s = "\<lambda>kfs. rev (sort_key fst (rev kfs))"
  from scan obtain names kfs where
    names: "list_entries e tr outdir = Inr names" and
    keys: "entry_keys e tr outdir names = Inr kfs" and
    es: "es = map snd (?s kfs)"
    by (auto simp: scan_entries_def sort_newest_first_def split: sum.splits)
  from entry_keys_Inr [OF keys] have
    snd_kfs: "map snd kfs = names" and
    mt: "\<And>p. p \<in> set kfs \<Longrightarrow> ?mt (snd p) = Inr (fst p)"
    by auto
  have sorted: "sorted_wrt (newer_or_same e tr outdir) es"
    using scan by (rule scan_entries_sorted)
  have stable: "filter (\<lambda>f. ?mt f = Inr m) es = filter (\<lambda>f. ?mt f = Inr m) names" for m
  proof -
    have "filter (\<lambda>f. ?mt f = Inr m) es = map snd (filter (\<lambda>p. ?mt (snd p) = Inr m) (?s kfs))"
      by (simp add: es filter_map o_def)
    also have "filter (\<lambda>p. ?mt (snd p) = Inr m) (?s kfs) = filter (\<lambda>p. fst p = m) (?s kfs)"
      by (rule filter_cong) (auto simp: mt)
    also have "\<dots> = filter (\<lambda>p. fst p = m) kfs"
      by (rule sort_newest_first_stable)
    also have "\<dots> = filter (\<lambda>p. ?mt (snd p) = Inr m) kfs"
      by (rule filter_cong) (auto simp: mt)
    also have "map snd \<dots> = filter (\<lambda>f. ?mt f = Inr m) names"
      by (simp add: snd_kfs [symmetric] filter_map o_def)
    finally show ?thesis .
  qed
  have set_es: "set es = set names"
    by (simp add: es snd_kfs [symmetric])
  have len: "length es = length names"
    by (simp add: es snd_kfs [symmetric])
  have again: "scan_entries e' tr' outdir = Inr es"
    if l: "listdir e' tr' outdir = listdir e tr outdir"
    and g: "\<forall>f \<in> set names. getmtime e' tr' (path_join outdir f) = ?mt f" for e' tr'
  proof -
    have "list_entries e' tr' outdir = Inr names"
      using names l by (simp add: list_entries_def)
    moreover have "entry_keys e' tr' outdir names = Inr kfs"
      using entry_keys_cong [OF g] keys by simp
    ultimately show ?thesis
      by (simp add: scan_entries_def sort_newest_first_def es)
  qed
  show ?thesis
    using names sorted stable set_es len again by blast
qed

lemma scan_three: "scan_entries env_three tr ''./images'' = Inr [''b.JPG'', ''a.jpg'', ''c.png'']"
  by (simp add: scan_entries_def list_entries_def env_three_def env_ok_def recognized_def
      splitext_ext_def basename_def lstrip_def lower_def lower_char_def image_exts_def
      path_join_def sort_newest_first_def Let_def)

theorem scan_entries_newest_first_witness:
  "scan_entries env_three [] ''./images'' = Inr [''b.JPG'', ''a.jpg'', ''c.png''] \<and>
   list_entries env_three [] ''./images'' = Inr [''a.jpg'', ''b.JPG'', ''c.png''] \<and>
   sorted_wrt (newer_or_same env_three [] ''./images'') [''b.JPG'', ''a.jpg'', ''c.png'']"
proof -
  from scan_entries_newest_first [OF scan_three]
  have "sorted_wrt (newer_or_same env_three [] ''./images'') [''b.JPG'', ''a.jpg'', ''c.png'']"
    by blast
  moreover have "list_entries env_three [] ''./images'' = Inr [''a.jpg'', ''b.JPG'', ''c.png'']"
    by (simp add: list_entries_def env_three_def env_ok_def recognized_def
      splitext_ext_def basename_def lstrip_def lower_def lower_char_def image_exts_def Let_def)
  ultimately show ?thesis
    using scan_three by simp
qed

lemma count_tiles_append: "count_tiles (a @ b) = count_tiles a + count_tiles b"
  by (simp add: count_tiles_def)

lemma count_tiles_head_pi4: "count_tiles (page_head_pi4 t) = 0"
  by (simp add: count_tiles_def page_head_pi4_def card_open_def)

lemma count_tiles_foot: "count_tiles page_foot = 0"
  by (simp add: count_tiles_def page_foot_def card_open_def)

lemma count_tiles_tile: "count_tiles (tile e tr outdir fn) = 1"
  by (simp add: count_tiles_def tile_def card_open_def Let_def)

lemma count_tiles_tiles: "count_tiles (concat (map (tile e tr outdir) es)) = length es"
  by (induction es) (simp_all add: count_tiles_append count_tiles_tile, simp add: count_tiles_def)

lemma scan_entries_env_ok: "scan_entries env_ok tr d = Inr []"
  by (simp add: scan_entries_def list_entries_def env_ok_def sort_newest_first_def)

lemma build_index_Inr_None_trace:
  "fst (build_index_html_pi4 e tr outdir title) = Inr None \<Longrightarrow>
   build_index_html_pi4 e tr outdir title = (Inr None, tr)"
  by (auto simp: build_index_html_pi4_def write_index_def Let_def split: sum.splits option.splits)

lemma entry_keys_all_readable:
  "(\<forall>f. f \<in> set fs \<longrightarrow> (\<exists>m. getmtime e tr (path_join outdir f) = Inr m)) \<Longrightarrow>
   \<exists>kfs. entry_keys e tr outdir fs = Inr kfs"
proof (induction fs)
  case Nil
  then show ?case by simp
next
  case (Cons f fs)
  then obtain m where "getmtime e tr (path_join outdir f) = Inr m"
    by auto
  moreover from Cons obtain kfs where "entry_keys e tr outdir fs = Inr kfs"
    by auto
  ultimately show ?case by simp
qed

lemma entry_keys_one_unreadable:
  "f \<in> set fs \<Longrightarrow> getmtime e tr (path_join outdir f) = Inl ex \<Longrightarrow>
   \<exists>ex'. entry_keys e tr outdir fs = Inl ex'"
  by (induction fs) (auto split: sum.splits)

lemma tile_lines:
  "tile e tr outdir fn =
     [card_open,
      ''      <a href='' @ sq @ html_escape fn @ sq @ ''><img src='' @ sq @ html_escape fn @ sq @
        '' alt='' @ sq @ html_escape fn @ sq @ ''></a>'',
      ''      <div class='meta'>'' @ html_escape fn @ '' &middot; '' @
        fst (tile_meta e tr (path_join outdir fn)) @ '' &middot; '' @
        snd (tile_meta e tr (path_join outdir fn)) @ '' KB</div>'',
      ''    </div>'']"
  by (simp add: tile_def Let_def)

text \<open>
  C4, amended. When the listing of the output directory raises \<open>FileNotFoundError\<close>,
  the scan has no entry, and the page of no entry is the head with the title and the
  foot, with no tile. Any other exception of the listing, and an exception raised when
  the modification time of a recognized entry is read for the sort, goes on to the
  caller of \<open>build_index_html\<close>, and nothing is written; when the listing and every such
  read succeed, the scan gives its entries. With the entries of the scan, a write that
  raises makes \<open>build_index_html\<close> return \<open>None\<close> and leaves no trace, and a write that
  succeeds makes it return the path of \<open>index.html\<close>, the page written. When
  \<open>build_index_html\<close> returns \<open>None\<close>, the index step of \<open>single_capture\<close> does nothing
  more: no remote command is run.
\<close>

theorem build_index_html_pi4_failures:
  "(listdir e tr outdir = Inl FileNotFoundError \<longrightarrow> scan_entries e tr outdir = Inr []) \<and>
   html_lines_pi4 e tr outdir title [] = page_head_pi4 (html_escape title) @ page_foot \<and>
   count_tiles (html_lines_pi4 e tr outdir title []) = 0 \<and>
   (\<forall>ex. listdir e tr outdir = Inl ex \<and> ex \<noteq> FileNotFoundError \<longrightarrow>
      build_index_html_pi4 e tr outdir title = (Inl ex, tr)) \<and>
   (\<forall>names f ex. listdir e tr outdir = Inr names \<and> f \<in> set names \<and> recognized f \<and>
      getmtime e tr (path_join outdir f) = Inl ex \<longrightarrow>
      (\<exists>ex'. build_index_html_pi4 e tr outdir title = (Inl ex', tr))) \<and>
   (\<forall>names. listdir e tr outdir = Inr names \<and>
      (\<forall>f. f \<in> set names \<and> recognized f \<longrightarrow> (\<exists>m. getmtime e tr (path_join outdir f) = Inr m)) \<longrightarrow>
      (\<exists>es. scan_entries e tr outdir = Inr es)) \<and>
   (\<forall>ex. scan_entries e tr outdir = Inl ex \<longrightarrow>
      build_index_html_pi4 e tr outdir title = (Inl ex, tr)) \<and>
   (\<forall>es ex. scan_entries e tr outdir = Inr es \<and>
      write_file e tr (path_join outdir ''index.html'')
        (str_join [CHR 0x0A] (html_lines_pi4 e tr outdir title es)) = Some ex \<longrightarrow>
      build_index_html_pi4 e tr outdir title = (Inr None, tr)) \<and>
   (\<forall>es. scan_entries e tr outdir = Inr es \<and>
      write_file e tr (path_join outdir ''index.html'')
        (str_join [CHR 0x0A] (html_lines_pi4 e tr outdir title es)) = None \<longrightarrow>
      build_index_html_pi4 e tr outdir title =
        (Inr (Some (path_join outdir ''index.html'')),
         tr @ [WriteFile (path_join outdir ''index.html'')
                 (str_join [CHR 0x0A] (html_lines_pi4 e tr outdir title es))])) \<and>
   (fst (build_index_html_pi4 e tr outdir title) = Inr None \<longrightarrow>
      index_step_pi4 e tr outdir True title cfg = (Inr (), tr))"
proof -
  have a: "listdir e tr outdir = Inl FileNotFoundError \<longrightarrow> scan_entries e tr outdir = Inr []"
    by (simp add: scan_entries_def list_entries_def sort_newest_first_def)
  have b: "html_lines_pi4 e tr outdir title [] = page_head_pi4 (html_escape title) @ page_foot"
    by (simp add: html_lines_pi4_def)
  have c: "count_tiles (html_lines_pi4 e tr outdir title []) = 0"
    by (simp add: b count_tiles_append count_tiles_head_pi4 count_tiles_foot)
  have d: "\<forall>ex. listdir e tr outdir = Inl ex \<and> ex \<noteq> FileNotFoundError \<longrightarrow>
      build_index_html_pi4 e tr outdir title = (Inl ex, tr)"
    by (simp add: build_index_html_pi4_def scan_entries_def list_entries_def)
  have f: "\<exists>ex'. build_index_html_pi4 e tr outdir title = (Inl ex', tr)"
    if "listdir e tr outdir = Inr names \<and> f \<in> set names \<and> recognized f \<and>
      getmtime e tr (path_join outdir f) = Inl ex" for names f ex
  proof -
    from that have "f \<in> set (filter recognized names)"
      by simp
    with that obtain ex' where "entry_keys e tr outdir (filter recognized names) = Inl ex'"
      using entry_keys_one_unreadable by blast
    with that show ?thesis
      by (simp add: build_index_html_pi4_def scan_entries_def list_entries_def)
  qed
  have g: "\<exists>es. scan_entries e tr outdir = Inr es"
    if "listdir e tr outdir = Inr names \<and>
      (\<forall>f. f \<in> set names \<and> recognized f \<longrightarrow> (\<exists>m. getmtime e tr (path_join outdir f) = Inr m))"
    for names
  proof -
    from that have "\<forall>f. f \<in> set (filter recognized names) \<longrightarrow>
        (\<exists>m. getmtime e tr (path_join outdir f) = Inr m)"
      by simp
    then obtain kfs where "entry_keys e tr outdir (filter recognized names) = Inr kfs"
      using entry_keys_all_readable by blast
    with that show ?thesis
      by (simp add: scan_entries_def list_entries_def)
  qed
  have h: "\<forall>ex. scan_entries e tr outdir = Inl ex \<longrightarrow>
      build_index_html_pi4 e tr outdir title = (Inl ex, tr)"
    by (simp add: build_index_html_pi4_def)
  have i: "\<forall>es ex. scan_entries e tr outdir = Inr es \<and>
      write_file e tr (path_join outdir ''index.html'')
        (str_join [CHR 0x0A] (html_lines_pi4 e tr outdir title es)) = Some ex \<longrightarrow>
      build_index_html_pi4 e tr outdir title = (Inr None, tr)"
    by (simp add: build_index_html_pi4_def write_index_def Let_def)
  have j: "\<forall>es. scan_entries e tr outdir = Inr es \<and>
      write_file e tr (path_join outdir ''index.html'')
        (str_join [CHR 0x0A] (html_lines_pi4 e tr outdir title es)) = None \<longrightarrow>
      build_index_html_pi4 e tr outdir title =
        (Inr (Some (path_join outdir ''index.html'')),
         tr @ [WriteFile (path_join outdir ''index.html'')
                 (str_join [CHR 0x0A] (html_lines_pi4 e tr outdir title es))])"
    by (simp add: build_index_html_pi4_def write_index_def Let_def)
  have k: "fst (build_index_html_pi4 e tr outdir title) = Inr None \<longrightarrow>
      index_step_pi4 e tr outdir True title cfg = (Inr (), tr)"
    using build_index_Inr_None_trace [of e tr outdir title]
    by (auto simp: index_step_pi4_def)
  show ?thesis
    using a b c d f g h i j k by blast
qed

theorem build_index_html_pi4_failures_witness:
  "listdir env_missing_dir [] ''./images'' = Inl FileNotFoundError \<and>
   scan_entries env_missing_dir [] ''./images'' = Inr [] \<and>
   build_index_html_pi4 env_missing_dir [] ''./images'' ''Image Index'' = (Inr None, []) \<and>
   index_step_pi4 env_missing_dir [] ''./images'' True ''Image Index'' (Some cfg_ok) = (Inr (), [])"
proof -
  note T = build_index_html_pi4_failures
    [of env_missing_dir "[]" "''./images''" "''Image Index''" "Some cfg_ok"]
  have l: "listdir env_missing_dir [] ''./images'' = Inl FileNotFoundError"
    by (simp add: env_missing_dir_def)
  with T have s: "scan_entries env_missing_dir [] ''./images'' = Inr []"
    by blast
  have w: "write_file env_missing_dir [] (path_join ''./images'' ''index.html'')
             (str_join [CHR 0x0A] (html_lines_pi4 env_missing_dir [] ''./images'' ''Image Index'' [])) =
           Some FileNotFoundError"
    by (simp add: env_missing_dir_def)
  from T s w have b: "build_index_html_pi4 env_missing_dir [] ''./images'' ''Image Index'' = (Inr None, [])"
    by blast
  then have "fst (build_index_html_pi4 env_missing_dir [] ''./images'' ''Image Index'') = Inr None"
    by simp
  with T have "index_step_pi4 env_missing_dir [] ''./images'' True ''Image Index'' (Some cfg_ok) = (Inr (), [])"
    by blast
  with l s b show ?thesis
    by simp
qed

text \<open>
  C4 as stated fails for a directory that exists and may not be read: the listing raises
  \<open>PermissionError\<close>, which \<open>build_index_html\<close> does not catch; no page is written.
\<close>

theorem build_index_html_pi4_unreadable:
  "listdir env_unreadable [] ''./images'' = Inl PermissionError \<and>
   build_index_html_pi4 env_unreadable [] ''./images'' ''Image Index'' = (Inl PermissionError, [])"
  by (simp add: build_index_html_pi4_def scan_entries_def list_entries_def env_unreadable_def)

lemma tile_meta_readable:
  "getmtime e tr p = Inr m \<Longrightarrow> fmt_localtime e m = Inr t \<Longrightarrow> getsize e tr p = Inr b \<Longrightarrow>
   tile_meta e tr p = (t, str_nat (b div 1024))"
  by (simp add: tile_meta_def)

lemma tile_meta_unreadable:
  "\<not> (\<exists>m t b. getmtime e tr p = Inr m \<and> fmt_localtime e m = Inr t \<and> getsize e tr p = Inr b) \<Longrightarrow>
   tile_meta e tr p = ([], [])"
  by (auto simp: tile_meta_def split: sum.splits)

lemma build_index_written:
  assumes "build_index_html_pi4 e tr outdir title = (Inr (Some p), tr1)"
  shows "\<exists>es. scan_entries e tr outdir = Inr es \<and> p = path_join outdir ''index.html'' \<and>
           tr1 = tr @ [WriteFile p (str_join [CHR 0x0A] (html_lines_pi4 e tr outdir title es))]"
  using assms
  by (auto simp: build_index_html_pi4_def write_index_def Let_def split: sum.splits option.splits)

text \<open>
  C6, amended. The page that \<open>build_index_html\<close> writes is the head with the title,
  then the tiles of the entries of the scan, one per entry and in their order, then the
  foot; so it has as many tiles as the scan has entries, and none for an empty scan.
  The tile of an entry shows the file inline under a link, and its name; when the
  file's modification time and size can be read it shows the time and the size in bytes
  divided by 1024, rounded down, and when reading one of them fails it shows neither.
\<close>

theorem index_page_tiles:
  "(\<forall>p tr1. build_index_html_pi4 e tr outdir title = (Inr (Some p), tr1) \<longrightarrow>
      (\<exists>es. scan_entries e tr outdir = Inr es \<and> p = path_join outdir ''index.html'' \<and>
         tr1 = tr @ [WriteFile p
                 (str_join [CHR 0x0A]
                    (page_head_pi4 (html_escape title) @ concat (map (tile e tr outdir) es) @
                     page_foot))])) \<and>
   count_tiles (page_head_pi4 (html_escape title) @ concat (map (tile e tr outdir) es) @ page_foot) =
     length es \<and>
   count_tiles (page_head_pi4 (html_escape title) @ concat (map (tile e tr outdir) []) @ page_foot) = 0 \<and>
   (\<forall>fn m t b.
      getmtime e tr (path_join outdir fn) = Inr m \<and> fmt_localtime e m = Inr t \<and>
      getsize e tr (path_join outdir fn) = Inr b \<longrightarrow>
      tile e tr outdir fn =
        [card_open,
         ''      <a href='' @ sq @ html_escape fn @ sq @ ''><img src='' @ sq @ html_escape fn @ sq @
           '' alt='' @ sq @ html_escape fn @ sq @ ''></a>'',
         ''      <div class='meta'>'' @ html_escape fn @ '' &middot; '' @ t @ '' &middot; '' @
           str_nat (b div 1024) @ '' KB</div>'',
         ''    </div>'']) \<and>
   (\<forall>fn.
      \<not> (\<exists>m t b. getmtime e tr (path_join outdir fn) = Inr m \<and> fmt_localtime e m = Inr t \<and>
            getsize e tr (path_join outdir fn) = Inr b) \<longrightarrow>
      tile e tr outdir fn =
        [card_open,
         ''      <a href='' @ sq @ html_escape fn @ sq @ ''><img src='' @ sq @ html_escape fn @ sq @
           '' alt='' @ sq @ html_escape fn @ sq @ ''></a>'',
         ''      <div class='meta'>'' @ html_escape fn @ '' &middot;  &middot;  KB</div>'',
         ''    </div>''])"
proof -
  have a: "\<forall>p tr1. build_index_html_pi4 e tr outdir title = (Inr (Some p), tr1) \<longrightarrow>
      (\<exists>es. scan_entries e tr outdir = Inr es \<and> p = path_join outdir ''index.html'' \<and>
         tr1 = tr @ [WriteFile p
                 (str_join [CHR 0x0A]
                    (page_head_pi4 (html_escape title) @ concat (map (tile e tr outdir) es) @
                     page_foot))])"
    using build_index_written [of e tr outdir title]
    by (simp add: html_lines_pi4_def)
  have b: "count_tiles (page_head_pi4 (html_escape title) @ concat (map (tile e tr outdir) es) @ page_foot) =
     length es" for es
    by (simp add: count_tiles_append count_tiles_head_pi4 count_tiles_foot count_tiles_tiles)
  have c: "tile e tr outdir fn =
        [card_open,
         ''      <a href='' @ sq @ html_escape fn @ sq @ ''><img src='' @ sq @ html_escape fn @ sq @
           '' alt='' @ sq @ html_escape fn @ sq @ ''></a>'',
         ''      <div class='meta'>'' @ html_escape fn @ '' &middot; '' @ t @ '' &middot; '' @
           str_nat (b div 1024) @ '' KB</div>'',
         ''    </div>'']"
    if "getmtime e tr (path_join outdir fn) = Inr m \<and> fmt_localtime e m = Inr t \<and>
      getsize e tr (path_join outdir fn) = Inr b" for fn m t b
    using that by (simp add: tile_lines tile_meta_readable)
  have d: "tile e tr outdir fn =
        [card_open,
         ''      <a href='' @ sq @ html_escape fn @ sq @ ''><img src='' @ sq @ html_escape fn @ sq @
           '' alt='' @ sq @ html_escape fn @ sq @ ''></a>'',
         ''      <div class='meta'>'' @ html_escape fn @ '' &middot;  &middot;  KB</div>'',
         ''    </div>'']"
    if "\<not> (\<exists>m t b. getmtime e tr (path_join outdir fn) = Inr m \<and> fmt_localtime e m = Inr t \<and>
            getsize e tr (path_join outdir fn) = Inr b)" for fn
    using tile_meta_unreadable [OF that] by (simp add: tile_lines)
  have b0: "count_tiles (page_head_pi4 (html_escape title) @ concat (map (tile e tr outdir) []) @ page_foot) = 0"
    using b [of "[]"] by simp
  show ?thesis
    using a b [of es] b0 c d by blast
qed

lemma env_three_fields:
  "write_file env_three tr p c = None" "which env_three tr n" "run env_three tr cmd = None"
  "copy2 env_three tr a b = None" "makedirs env_three tr p = None"
  by (simp_all add: env_three_def env_ok_def)

lemma html_escape_plain: "html_escape ''a.jpg'' = ''a.jpg''"
  by (simp add: html_escape_def escape_char_def)

theorem index_page_tiles_witness:
  "build_index_html_pi4 env_three [] ''./images'' ''Image Index'' =
     (Inr (Some ''./images/index.html''),
      [WriteFile ''./images/index.html''
         (str_join [CHR 0x0A]
            (page_head_pi4 (html_escape ''Image Index'') @
             concat (map (tile env_three [] ''./images'') [''b.JPG'', ''a.jpg'', ''c.png'']) @
             page_foot))]) \<and>
   count_tiles
     (page_head_pi4 (html_escape ''Image Index'') @
      concat (map (tile env_three [] ''./images'') [''b.JPG'', ''a.jpg'', ''c.png'']) @ page_foot) = 3 \<and>
   tile env_three [] ''./images'' ''a.jpg'' =
     [card_open,
      ''      <a href='a.jpg'><img src='a.jpg' alt='a.jpg'></a>'',
      ''      <div class='meta'>a.jpg &middot; 2025-01-01 12:00:00 &middot; 4 KB</div>'',
      ''    </div>'']"
proof -
  note T = index_page_tiles [of env_three "[]" "''./images''" "''Image Index''" "[''b.JPG'', ''a.jpg'', ''c.png'']"]
  have h: "getmtime env_three [] (path_join ''./images'' ''a.jpg'') = Inr 10 \<and>
           fmt_localtime env_three 10 = Inr ''2025-01-01 12:00:00'' \<and>
           getsize env_three [] (path_join ''./images'' ''a.jpg'') = Inr 4100"
    by (simp add: env_three_def env_ok_def path_join_def)
  have k: "str_nat 4 = ''4''"
    by (simp add: str_nat.simps digit_char_def)
  note t = T [THEN conjunct2, THEN conjunct2, THEN conjunct2, THEN conjunct1, rule_format, OF h]
  have c: "count_tiles
     (page_head_pi4 (html_escape ''Image Index'') @
      concat (map (tile env_three [] ''./images'') [''b.JPG'', ''a.jpg'', ''c.png'']) @ page_foot) = 3"
    using T by simp
  have b: "build_index_html_pi4 env_three [] ''./images'' ''Image Index'' =
     (Inr (Some ''./images/index.html''),
      [WriteFile ''./images/index.html''
         (str_join [CHR 0x0A]
            (page_head_pi4 (html_escape ''Image Index'') @
             concat (map (tile env_three [] ''./images'') [''b.JPG'', ''a.jpg'', ''c.png'']) @
             page_foot))])"
    by (simp add: build_index_html_pi4_def scan_three write_index_def Let_def env_three_fields
        html_lines_pi4_def path_join_def)
  show ?thesis
    using t c b by (simp add: k html_escape_plain)
qed

text \<open>
  C6 as stated fails when the size of a listed file cannot be read: its tile shows
  neither the modification time, which could be read, nor a size.
\<close>

theorem index_page_tile_without_size:
  "scan_entries env_size_fails [] ''./images'' = Inr [''b.JPG'', ''a.jpg'', ''c.png''] \<and>
   getmtime env_size_fails [] (path_join ''./images'' ''a.jpg'') = Inr 10 \<and>
   getsize env_size_fails [] (path_join ''./images'' ''a.jpg'') = Inl FileNotFoundError \<and>
   tile env_size_fails [] ''./images'' ''a.jpg'' =
     [card_open,
      ''      <a href='a.jpg'><img src='a.jpg' alt='a.jpg'></a>'',
      ''      <div class='meta'>a.jpg &middot;  &middot;  KB</div>'',
      ''    </div>'']"
proof -
  have k: "entry_keys env_size_fails [] ''./images'' fs = entry_keys env_three [] ''./images'' fs" for fs
    by (rule entry_keys_cong) (simp add: env_size_fails_def)
  have l: "list_entries env_size_fails [] ''./images'' = list_entries env_three [] ''./images''"
    by (simp add: list_entries_def env_size_fails_def)
  have s: "scan_entries env_size_fails [] ''./images'' = scan_entries env_three [] ''./images''"
    unfolding scan_entries_def l k by (rule refl)
  have g: "getmtime env_size_fails [] (path_join ''./images'' ''a.jpg'') = Inr 10 \<and>
           getsize env_size_fails [] (path_join ''./images'' ''a.jpg'') = Inl FileNotFoundError"
    by (simp add: env_size_fails_def env_three_def env_ok_def path_join_def)
  have t: "tile_meta env_size_fails [] (path_join ''./images'' ''a.jpg'') = ([], [])"
    using g by (simp add: tile_meta_def env_size_fails_def env_three_def env_ok_def)
  show ?thesis
    using s g t by (simp add: scan_three tile_lines html_escape_plain)
qed

subsection \<open>Annotator\<close>

lemma draw_overlay_cases:
  "(\<exists>ex. draw_overlay e tr p t fp = (Inl ex, tr)) \<or>
   (\<exists>xy r f. draw_overlay e tr p t fp = (Inr (), tr @ [SaveImage p t xy r f]))"
  by (auto simp: draw_overlay_def Let_def split: sum.splits option.splits prod.splits)

lemma choose_font_default:
  "load_default e tr = None \<Longrightarrow> \<exists>f. choose_font e tr fp n = Inr f"
  by (auto simp: choose_font_def Let_def split: option.splits)

lemma env_ok_now: "now env_ok tr = noon (5 * naps tr)"
  by (simp add: env_ok_def)

lemma env_ok_shell:
  "write_file env_ok tr p c = None" "which env_ok tr n" "run env_ok tr cmd = None"
  "copy2 env_ok tr a b = None"
  by (simp_all add: env_ok_def)

lemma env_ok_fields:
  "makedirs env_ok tr p = None" "capture_file env_ok tr p = None" "pil_available env_ok"
  "image_open env_ok tr p = Inr (640, 480)" "truetype env_ok tr p n = None"
  "textbbox env_ok tr t f = Inr (0, 0, 100, 10)" "rectangle env_ok tr r = None"
  "draw_text env_ok tr xy t f = None" "save env_ok tr p = None" "load_default env_ok tr = None"
  by (simp_all add: env_ok_def)

lemma annotate_pi4_cases:
  "\<exists>b tr1. annotate_image_with_timestamp_pi4 e tr p text fp = (Inr b, tr1) \<and>
      (b \<longrightarrow> (\<exists>t xy r f. tr1 = tr @ [SaveImage p t xy r f])) \<and> (\<not> b \<longrightarrow> tr1 = tr)"
proof (cases "pil_available e")
  case False
  then show ?thesis
    by (auto simp: annotate_image_with_timestamp_pi4_def)
next
  case True
  let ?t = "case text of None \<Rightarrow> strftime_human (now e tr) | Some t \<Rightarrow> t"
  from draw_overlay_cases [of e tr p ?t fp] show ?thesis
  proof
    assume "\<exists>ex. draw_overlay e tr p ?t fp = (Inl ex, tr)"
    then show ?thesis
      using True by (auto simp: annotate_image_with_timestamp_pi4_def Let_def)
  next
    assume "\<exists>xy r f. draw_overlay e tr p ?t fp = (Inr (), tr @ [SaveImage p ?t xy r f])"
    then show ?thesis
      using True by (auto simp: annotate_image_with_timestamp_pi4_def Let_def)
  qed
qed

text \<open>
  C3. For every image path, text and font, and whatever Pillow, the file system and the
  fonts do, the Annotator of capture_pi4.py returns a boolean and does not raise. It
  returns \<open>True\<close> exactly when it has saved the image with the overlay, and otherwise
  leaves the file as it was captured; without Pillow, and for a file that cannot be
  opened as an image, it returns \<open>False\<close>. No missing TrueType font makes the choice of
  the font fail, as long as the built-in font loads. So a single capture without a remote
  target and without an index never fails once the directory is made and the camera has
  delivered the frame. (Messages printed to the console are not modelled.)
\<close>

theorem annotate_pi4_never_raises:
  "(\<exists>b tr1. annotate_image_with_timestamp_pi4 e tr p text fp = (Inr b, tr1) \<and>
      (b \<longrightarrow> (\<exists>t xy r f. tr1 = tr @ [SaveImage p t xy r f])) \<and> (\<not> b \<longrightarrow> tr1 = tr)) \<and>
   (\<not> pil_available e \<longrightarrow> annotate_image_with_timestamp_pi4 e tr p text fp = (Inr False, tr)) \<and>
   (\<forall>ex. image_open e tr p = Inl ex \<longrightarrow>
      annotate_image_with_timestamp_pi4 e tr p text fp = (Inr False, tr)) \<and>
   (load_default e tr = None \<longrightarrow> (\<exists>f. choose_font e tr fp n = Inr f)) \<and>
   (makedirs e tr outdir = None \<and> (\<forall>tr1 f. capture_file e tr1 f = None) \<longrightarrow>
      fst (single_capture_pi4 e tr outdir None False title) = Inr ())"
proof -
  note total = annotate_pi4_cases
  have a: "\<not> pil_available e \<longrightarrow> annotate_image_with_timestamp_pi4 e tr p text fp = (Inr False, tr)"
    by (simp add: annotate_image_with_timestamp_pi4_def)
  have b: "\<forall>ex. image_open e tr p = Inl ex \<longrightarrow>
      annotate_image_with_timestamp_pi4 e tr p text fp = (Inr False, tr)"
    by (auto simp: annotate_image_with_timestamp_pi4_def draw_overlay_def Let_def)
  have c: "load_default e tr = None \<longrightarrow> (\<exists>f. choose_font e tr fp n = Inr f)"
    using choose_font_default by blast
  have d: "fst (single_capture_pi4 e tr outdir None False title) = Inr ()"
    if "makedirs e tr outdir = None \<and> (\<forall>tr1 f. capture_file e tr1 f = None)"
  proof -
    let ?tr1 = "tr @ [Makedirs outdir]"
    let ?f = "timestamped_filename_pi4 (now e ?tr1) outdir ''image'' ''jpg''"
    let ?tr2 = "?tr1 @ [Capture ?f]"
    obtain b tr3 where
      "annotate_image_with_timestamp_pi4 e ?tr2 ?f (Some (strftime_human (now e ?tr2))) None = (Inr b, tr3)"
      using total by blast
    with that show ?thesis
      by (simp add: single_capture_pi4_def Let_def upload_if_configured_def index_step_pi4_def)
  qed
  show ?thesis
    using total [of e tr p "text" fp] a b c d by blast
qed

theorem annotate_pi4_never_raises_witness:
  "\<not> pil_available env_no_pillow \<and>
   annotate_image_with_timestamp_pi4 env_no_pillow [] ''./images/image_20250101_120.jpg'' None None =
     (Inr False, []) \<and>
   image_open env_corrupt_image [] ''./images/image_20250101_120.jpg'' = Inl OSError \<and>
   annotate_image_with_timestamp_pi4 env_corrupt_image [] ''./images/image_20250101_120.jpg'' None None =
     (Inr False, []) \<and>
   annotate_image_with_timestamp_pi4 env_no_fonts [] ''./images/image_20250101_120.jpg''
     (Some ''2025-01-01 12:00:00'') (Some ''/home/pi/missing.ttf'') =
     (Inr True,
      [SaveImage ''./images/image_20250101_120.jpg'' ''2025-01-01 12:00:00'' (532, 462)
         (528, 458, 636, 476) DefaultFont]) \<and>
   fst (single_capture_pi4 env_corrupt_image [] ''./images'' None False ''Image Index'') = Inr ()"
proof -
  note A = annotate_pi4_never_raises
    [of env_no_pillow "[]" "''./images/image_20250101_120.jpg''" None None 16 "''./images''" "''Image Index''"]
  note B = annotate_pi4_never_raises
    [of env_corrupt_image "[]" "''./images/image_20250101_120.jpg''" None None 16 "''./images''" "''Image Index''"]
  have p: "\<not> pil_available env_no_pillow"
    by (simp add: env_no_pillow_def)
  have i: "image_open env_corrupt_image [] ''./images/image_20250101_120.jpg'' = Inl OSError"
    by (simp add: env_corrupt_image_def)
  have m: "makedirs env_corrupt_image [] ''./images'' = None \<and>
           (\<forall>tr1 f. capture_file env_corrupt_image tr1 f = None)"
    by (simp add: env_corrupt_image_def env_ok_def)
  have f: "annotate_image_with_timestamp_pi4 env_no_fonts [] ''./images/image_20250101_120.jpg''
     (Some ''2025-01-01 12:00:00'') (Some ''/home/pi/missing.ttf'') =
     (Inr True,
      [SaveImage ''./images/image_20250101_120.jpg'' ''2025-01-01 12:00:00'' (532, 462)
         (528, 458, 636, 476) DefaultFont])"
    by (simp add: annotate_image_with_timestamp_pi4_def draw_overlay_def choose_font_def
        measure_text_def env_no_fonts_def env_ok_def Let_def)
  from A p have "annotate_image_with_timestamp_pi4 env_no_pillow [] ''./images/image_20250101_120.jpg'' None None =
     (Inr False, [])"
    by blast
  moreover from B i have "annotate_image_with_timestamp_pi4 env_corrupt_image [] ''./images/image_20250101_120.jpg'' None None =
     (Inr False, [])"
    by blast
  moreover from B m have "fst (single_capture_pi4 env_corrupt_image [] ''./images'' None False ''Image Index'') = Inr ()"
    by blast
  ultimately show ?thesis
    using p i f by simp
qed

subsection \<open>Capture Session\<close>

lemma captures_append: "captures (a @ b) = captures a @ captures b"
  by (simp add: captures_def)

lemma captures_draw_overlay: "captures (snd (draw_overlay e tr p t fp)) = captures tr"
  by (auto simp: draw_overlay_def Let_def captures_def split: sum.splits option.splits prod.splits)

lemma annotate_pi4_captures:
  "\<exists>b tr1. annotate_image_with_timestamp_pi4 e tr p text fp = (Inr b, tr1) \<and> captures tr1 = captures tr"
proof (cases "pil_available e")
  case False
  then show ?thesis by (auto simp: annotate_image_with_timestamp_pi4_def)
next
  case True
  let ?t = "case text of None \<Rightarrow> strftime_human (now e tr) | Some t \<Rightarrow> t"
  obtain r tr1 where d: "draw_overlay e tr p ?t fp = (r, tr1)"
    by (cases "draw_overlay e tr p ?t fp")
  have "captures tr1 = captures tr"
    using captures_draw_overlay [of e tr p ?t fp] d by simp
  then show ?thesis
    using True d by (cases r) (auto simp: annotate_image_with_timestamp_pi4_def Let_def)
qed

lemma captures_build_index_pi4: "captures (snd (build_index_html_pi4 e tr outdir title)) = captures tr"
  by (auto simp: build_index_html_pi4_def write_index_def Let_def captures_def
      split: sum.splits option.splits)

lemma sleep_bounded: "0 \<le> x \<Longrightarrow> x \<le> 9000000000 \<Longrightarrow> sleep tr (Finite x) = (Inr (), tr @ [Sleep x])"
  by (simp add: sleep_def)

lemma timelapse_step_pi4_ok:
  assumes cap: "\<forall>tr f. capture_file e tr f = None" and iv: "0 \<le> x" "x \<le> 9000000000"
    and idx: "build_index \<longrightarrow> (\<forall>tr ex. fst (build_index_html_pi4 e tr outdir index_title) \<noteq> Inl ex)"
  shows "\<exists>tr1. timelapse_step_pi4 e outdir (Finite x) build_index index_title i tr = (Inr (), tr1) \<and>
           captures tr1 =
             captures tr @ [timestamped_filename_pi4 (now e tr) outdir (''img'' @ fmt_0d 4 i) ''jpg'']"
proof -
  let ?f = "timestamped_filename_pi4 (now e tr) outdir (''img'' @ fmt_0d 4 i) ''jpg''"
  let ?tr1 = "tr @ [Capture ?f]"
  obtain b tr2 where a:
    "annotate_image_with_timestamp_pi4 e ?tr1 ?f (Some (strftime_human (now e ?tr1))) None = (Inr b, tr2)"
    "captures tr2 = captures ?tr1"
    using annotate_pi4_captures by blast
  let ?ix = "if build_index then build_index_html_pi4 e tr2 outdir index_title else (Inr None, tr2)"
  obtain r tr3 where ix: "?ix = (r, tr3)"
    by (cases ?ix)
  have r: "\<exists>v. r = Inr v"
    using idx ix by (cases r) (auto split: if_splits dest: arg_cong [where f = fst])
  have c3: "captures tr3 = captures tr2"
    using ix captures_build_index_pi4 [of e tr2 outdir index_title]
    by (auto split: if_splits)
  have "timelapse_step_pi4 e outdir (Finite x) build_index index_title i tr = (Inr (), tr3 @ [Sleep x])"
    using cap a(1) ix r by (auto simp: timelapse_step_pi4_def Let_def sleep_bounded [OF iv])
  moreover have "captures (tr3 @ [Sleep x]) = captures tr @ [?f]"
    using a(2) c3 by (simp add: captures_def)
  ultimately show ?thesis by blast
qed

lemma timelapse_loop_pi4_runs:
  assumes cap: "\<forall>tr f. capture_file e tr f = None" and iv: "0 \<le> x" "x \<le> 9000000000"
    and idx: "build_index \<longrightarrow> (\<forall>tr ex. fst (build_index_html_pi4 e tr outdir index_title) \<noteq> Inl ex)"
  shows "\<exists>tr1 new. timelapse_loop_pi4 e outdir (Finite x) (Some n) build_index index_title i tr =
             Some (Inr (), tr1) \<and>
           captures tr1 = captures tr @ new \<and>
           list_all2 (\<lambda>k f. \<exists>d. f = timestamped_filename_pi4 d outdir (''img'' @ fmt_0d 4 k) ''jpg'')
             [i..<nat n] new"
proof (induction "nat n - i" arbitrary: i tr)
  case 0
  then have "\<not> keep_going (Some n) i"
    by (simp add: keep_going_def)
  moreover have "[i..<nat n] = []"
    using 0 by simp
  ultimately show ?case
    by (subst timelapse_loop_pi4.simps) simp
next
  case (Suc k)
  then have lt: "i < nat n" and go: "keep_going (Some n) i"
    by (auto simp: keep_going_def)
  obtain tr1 where s:
    "timelapse_step_pi4 e outdir (Finite x) build_index index_title i tr = (Inr (), tr1)"
    "captures tr1 = captures tr @ [timestamped_filename_pi4 (now e tr) outdir (''img'' @ fmt_0d 4 i) ''jpg'']"
    using timelapse_step_pi4_ok [OF cap iv idx] by blast
  have "k = nat n - Suc i"
    using Suc.hyps(2) by simp
  from Suc.hyps(1) [OF this, of tr1] obtain tr2 new where r:
    "timelapse_loop_pi4 e outdir (Finite x) (Some n) build_index index_title (Suc i) tr1 = Some (Inr (), tr2)"
    "captures tr2 = captures tr1 @ new"
    "list_all2 (\<lambda>k f. \<exists>d. f = timestamped_filename_pi4 d outdir (''img'' @ fmt_0d 4 k) ''jpg'')
       [Suc i..<nat n] new"
    by blast
  have run: "timelapse_loop_pi4 e outdir (Finite x) (Some n) build_index index_title i tr = Some (Inr (), tr2)"
    using go s(1) r(1) by (subst timelapse_loop_pi4.simps) simp
  have upt: "[i..<nat n] = i # [Suc i..<nat n]"
    using lt by (simp add: upt_conv_Cons)
  let ?f = "timestamped_filename_pi4 (now e tr) outdir (''img'' @ fmt_0d 4 i) ''jpg''"
  have "captures tr2 = captures tr @ (?f # new)"
    using s(2) r(2) by simp
  moreover have "list_all2 (\<lambda>k f. \<exists>d. f = timestamped_filename_pi4 d outdir (''img'' @ fmt_0d 4 k) ''jpg'')
       [i..<nat n] (?f # new)"
    using r(3) upt by auto
  ultimately show ?case
    using run by blast
qed

text \<open>
  C7. In capture_pi4.py, with a count \<open>n\<close>, a camera that delivers every frame and an
  interval between 0 and 9000000000 seconds (within what \<open>time.sleep\<close> accepts),
  \<open>timelapse_capture\<close> returns by itself (no interrupt is needed) after exactly \<open>n\<close>
  captures (none when \<open>n\<close> is negative), and capture number \<open>k\<close>, counted from 0, is named
  with the prefix \<open>img\<close> followed by \<open>k\<close> in four digits. This holds also with the index
  rebuilt in every turn, as long as that does not raise.
\<close>

theorem timelapse_capture_count:
  assumes mk: "makedirs e tr outdir = None"
    and cap: "\<forall>tr f. capture_file e tr f = None"
    and iv: "0 \<le> x" "x \<le> 9000000000"
    and idx: "build_index \<longrightarrow> (\<forall>tr ex. fst (build_index_html_pi4 e tr outdir index_title) \<noteq> Inl ex)"
  shows "\<exists>tr4 new4.
           timelapse_capture_pi4 e tr outdir (Finite x) (Some n) build_index index_title =
             Some (Inr (), tr4) \<and>
           captures tr4 = captures tr @ new4 \<and> length new4 = nat n \<and>
           list_all2 (\<lambda>k f. \<exists>d. f = timestamped_filename_pi4 d outdir (''img'' @ fmt_0d 4 k) ''jpg'')
             [0..<nat n] new4"
proof -
  let ?tr0 = "tr @ [Makedirs outdir]"
  have c0: "captures ?tr0 = captures tr"
    by (simp add: captures_def)
  from timelapse_loop_pi4_runs [OF cap iv idx, of n 0 ?tr0] obtain tr4 new4 where r4:
    "timelapse_loop_pi4 e outdir (Finite x) (Some n) build_index index_title 0 ?tr0 = Some (Inr (), tr4)"
    "captures tr4 = captures ?tr0 @ new4"
    "list_all2 (\<lambda>k f. \<exists>d. f = timestamped_filename_pi4 d outdir (''img'' @ fmt_0d 4 k) ''jpg'')
       [0..<nat n] new4"
    by blast
  have l4: "length new4 = nat n"
    using list_all2_lengthD [OF r4(3)] by simp
  have "timelapse_capture_pi4 e tr outdir (Finite x) (Some n) build_index index_title = Some (Inr (), tr4)"
    using mk r4(1) by (simp add: timelapse_capture_pi4_def)
  then show ?thesis
    using r4(2,3) l4 c0 by auto
qed

lemma build_index_env_ok:
  "build_index_html_pi4 env_ok tr d t =
     (Inr (Some (path_join d ''index.html'')),
      tr @ [WriteFile (path_join d ''index.html'') (str_join [CHR 0x0A] (html_lines_pi4 env_ok tr d t []))])"
  by (simp add: build_index_html_pi4_def scan_entries_env_ok write_index_def Let_def env_ok_shell)

lemma three_frames_pi4:
  "map_option (\<lambda>r. (fst r, captures (snd r)))
     (timelapse_capture_pi4 env_ok [] ''./images'' (Finite 5) (Some 3) True ''Image Index'') =
     Some (Inr (),
       [''./images/img0000_20250101_120.jpg'',
        ''./images/img0001_20250101_120.jpg'',
        ''./images/img0002_20250101_120.jpg''])"
  by (simp add: timelapse_capture_pi4_def timelapse_loop_pi4.simps keep_going_def
      timelapse_step_pi4_def annotate_image_with_timestamp_pi4_def draw_overlay_def
      choose_font_def measure_text_def sleep_def env_ok_fields env_ok_now noon_def naps_def
      timestamped_filename_pi4_def strftime_compact_def strftime_human_def fmt_small
      path_join_def captures_def Let_def build_index_env_ok)

theorem timelapse_capture_count_witness:
  "makedirs env_ok [] ''./images'' = None \<and> (0::real) \<le> 5 \<and> (5::real) \<le> 9000000000 \<and>
   map_option (\<lambda>r. (fst r, captures (snd r)))
     (timelapse_capture_pi4 env_ok [] ''./images'' (Finite 5) (Some 3) True ''Image Index'') =
     Some (Inr (),
       [''./images/img0000_20250101_120.jpg'',
        ''./images/img0001_20250101_120.jpg'',
        ''./images/img0002_20250101_120.jpg''])"
proof -
  have T: "\<exists>tr4 new4.
           timelapse_capture_pi4 env_ok [] ''./images'' (Finite 5) (Some 3) True ''Image Index'' =
             Some (Inr (), tr4) \<and>
           captures tr4 = captures [] @ new4 \<and> length new4 = nat 3 \<and>
           list_all2 (\<lambda>k f. \<exists>d. f = timestamped_filename_pi4 d ''./images'' (''img'' @ fmt_0d 4 k) ''jpg'')
             [0..<nat 3] new4"
    by (rule timelapse_capture_count) (simp_all add: env_ok_fields build_index_env_ok)
  show ?thesis
    using T three_frames_pi4 by (simp add: env_ok_fields)
qed

subsection \<open>Finalizing\<close>

lemma runs_append: "runs (a @ b) = runs a @ runs b"
  by (simp add: runs_def)





subsection \<open>Lines 407 to 421 of cap_pi6.py, as written\<close>

lemma copies_append: "copies (a @ b) = copies a @ copies b"
  by (simp add: copies_def)







end
